theory Spec2Isabelle
  imports Complex_Main "HOL-Library.Char_ord" "HOL-Library.List_Lexorder" "HOL-Library.Multiset"
begin

section \<open>JavaScript numbers\<close>

text \<open>
  The ticker computes with JavaScript numbers. They are modelled as exact reals extended
  with the three special values of the language: \<open>NaN\<close> and the two infinities. The
  operations below follow the language's rules for the special values (a division by
  zero is an infinity or \<open>NaN\<close>, never an error and never \<open>0\<close>); finite results are
  exact, so binary rounding error, overflow and the sign of zero are outside the model.
\<close>

datatype jsnum = NaN | PInf | NInf | Fin real

fun jsneg :: "jsnum \<Rightarrow> jsnum" where
  "jsneg NaN = NaN"
| "jsneg PInf = NInf"
| "jsneg NInf = PInf"
| "jsneg (Fin x) = Fin (- x)"

fun jsadd :: "jsnum \<Rightarrow> jsnum \<Rightarrow> jsnum" where
  "jsadd NaN _ = NaN"
| "jsadd _ NaN = NaN"
| "jsadd PInf NInf = NaN"
| "jsadd NInf PInf = NaN"
| "jsadd PInf _ = PInf"
| "jsadd _ PInf = PInf"
| "jsadd NInf _ = NInf"
| "jsadd _ NInf = NInf"
| "jsadd (Fin x) (Fin y) = Fin (x + y)"

definition jssub :: "jsnum \<Rightarrow> jsnum \<Rightarrow> jsnum" where
  "jssub a b = jsadd a (jsneg b)"

text \<open>The sign of a number that is not \<open>NaN\<close>: \<open>-1\<close>, \<open>0\<close> or \<open>1\<close>.\<close>

fun jssign :: "jsnum \<Rightarrow> int" where
  "jssign NaN = 0"
| "jssign PInf = 1"
| "jssign NInf = - 1"
| "jssign (Fin x) = (if x < 0 then - 1 else if x = 0 then 0 else 1)"

definition signed_inf :: "int \<Rightarrow> jsnum" where
  "signed_inf s = (if s = 0 then NaN else if s < 0 then NInf else PInf)"

fun jsmul :: "jsnum \<Rightarrow> jsnum \<Rightarrow> jsnum" where
  "jsmul NaN _ = NaN"
| "jsmul _ NaN = NaN"
| "jsmul (Fin x) (Fin y) = Fin (x * y)"
| "jsmul a b = signed_inf (jssign a * jssign b)"

fun jsdiv :: "jsnum \<Rightarrow> jsnum \<Rightarrow> jsnum" where
  "jsdiv NaN _ = NaN"
| "jsdiv _ NaN = NaN"
| "jsdiv (Fin x) (Fin y) = (if y = 0 then signed_inf (jssign (Fin x)) else Fin (x / y))"
| "jsdiv (Fin x) _ = Fin 0"
| "jsdiv a (Fin y) = signed_inf (jssign a * (if y < 0 then - 1 else 1))"
| "jsdiv _ _ = NaN"

text \<open>Comparisons: every comparison with \<open>NaN\<close> is false.\<close>

fun jsle :: "jsnum \<Rightarrow> jsnum \<Rightarrow> bool" where
  "jsle NaN _ = False"
| "jsle _ NaN = False"
| "jsle NInf _ = True"
| "jsle _ PInf = True"
| "jsle PInf _ = False"
| "jsle _ NInf = False"
| "jsle (Fin x) (Fin y) = (x \<le> y)"

definition jsge :: "jsnum \<Rightarrow> jsnum \<Rightarrow> bool" where
  "jsge a b = jsle b a"

definition jsgt :: "jsnum \<Rightarrow> jsnum \<Rightarrow> bool" where
  "jsgt a b = (jsle b a \<and> a \<noteq> b)"

text \<open>\<open>Math.min\<close> of two numbers: \<open>NaN\<close> when either is.\<close>

fun Math_min :: "jsnum \<Rightarrow> jsnum \<Rightarrow> jsnum" where
  "Math_min NaN _ = NaN"
| "Math_min _ NaN = NaN"
| "Math_min a b = (if jsle a b then a else b)"

text \<open>
  \<open>_.round(number, precision)\<close> of lodash: a finite number is shifted by \<open>precision\<close>
  decimal places, rounded with \<open>Math.round\<close> (to the nearest integer, a tie towards
  \<open>+\<infinity>\<close>) and shifted back; a number that is not finite is returned as it is.
\<close>

definition round_real :: "nat \<Rightarrow> real \<Rightarrow> real" where
  "round_real p x = of_int \<lfloor>x * 10 ^ p + 1 / 2\<rfloor> / 10 ^ p"

fun round_js :: "jsnum \<Rightarrow> nat \<Rightarrow> jsnum" where
  "round_js (Fin x) p = Fin (round_real p x)"
| "round_js a p = a"

text \<open>
  \<open>_.sum\<close>, \<open>_.sumBy\<close> and \<open>_.mean\<close> of lodash: the sum adds from the left (the sum of
  the empty array is \<open>0\<close>), the mean of the empty array is \<open>NaN\<close>.
\<close>

definition sum_js :: "jsnum list \<Rightarrow> jsnum" where
  "sum_js xs = foldl jsadd (Fin 0) xs"

definition sumBy :: "'a list \<Rightarrow> ('a \<Rightarrow> jsnum) \<Rightarrow> jsnum" where
  "sumBy xs f = sum_js (map f xs)"

definition mean_js :: "jsnum list \<Rightarrow> jsnum" where
  "mean_js xs = (if xs = [] then NaN else jsdiv (sum_js xs) (Fin (real (length xs))))"

section \<open>Phase 1: external prices\<close>

text \<open>
  Each price source is an HTTP request whose handler extracts one number; any failure of
  the request or of the extraction is caught and turned into \<open>null\<close>. A source's outcome
  is therefore \<open>None\<close> (the \<open>null\<close>) or the number it extracted. \<open>getBtcPrice\<close> rounds
  each of its four sources to 3 decimals, \<open>getLumenPrice\<close> takes its three as they are.
\<close>

type_synonym source = "jsnum option"

definition non_null :: "source list \<Rightarrow> jsnum list" where
  "non_null allPrices = map the (filter (\<lambda>price. price \<noteq> None) allPrices)"

definition getBtcPrice :: "source list \<Rightarrow> jsnum" where
  "getBtcPrice srcs =
     (let allPrices = map (map_option (\<lambda>x. round_js x 3)) srcs
      in round_js (mean_js (non_null allPrices)) 2)"

definition getLumenPrice :: "source list \<Rightarrow> jsnum" where
  "getLumenPrice srcs = round_js (mean_js (non_null srcs)) 8"

record externalPrices =
  USD_BTC :: jsnum
  BTC_XLM :: jsnum
  USD_XLM :: jsnum
  USD_XLM_24hAgo :: "jsnum option"
  USD_XLM_change :: "jsnum option"

text \<open>
  \<open>getExternalPrices\<close> returns the first three fields; the last two are set by
  \<open>phase1\<close> and are absent (\<open>None\<close>) until then.
\<close>

definition getExternalPrices :: "source list \<Rightarrow> source list \<Rightarrow> externalPrices" where
  "getExternalPrices btc_srcs xlm_srcs =
     (let externalData0 = getBtcPrice btc_srcs;
          externalData1 = getLumenPrice xlm_srcs
      in \<lparr> USD_BTC = externalData0, BTC_XLM = externalData1,
           USD_XLM = round_js (jsmul externalData0 externalData1) 6,
           USD_XLM_24hAgo = None, USD_XLM_change = None \<rparr>)"

section \<open>Printing numbers\<close>

text \<open>The decimal digits of a natural number, most significant first.\<close>

definition digit_char :: "nat \<Rightarrow> char" where
  "digit_char d = ''0123456789'' ! d"

fun digits :: "nat \<Rightarrow> string" where
  "digits n = (if n < 10 then [digit_char n] else digits (n div 10) @ [digit_char (n mod 10)])"

declare digits.simps [simp del]

text \<open>
  A number together with its decimal notation: \<open>Dec s m e\<close> is \<open>m \<times> 10\<^sup>e\<close>, negated
  when \<open>s\<close> holds. This is how a number reaches the ticker (the ledger service sends
  prices as decimal text, which \<open>Number\<close> reads) and how \<open>Number.prototype.toString\<close>
  sees it: the digits \<open>m\<close> without trailing zeros, and the position of the decimal point.
  \<open>canonical\<close> says that the notation is the shortest one, the one JavaScript prints.
\<close>

datatype jsdec = DNaN | DInf bool | Dec bool nat int

fun canonical :: "jsdec \<Rightarrow> bool" where
  "canonical (Dec s m e) = (if m = 0 then \<not> s \<and> e = 0 else m mod 10 \<noteq> 0)"
| "canonical _ = True"

fun num_of_dec :: "jsdec \<Rightarrow> jsnum" where
  "num_of_dec DNaN = NaN"
| "num_of_dec (DInf s) = (if s then NInf else PInf)"
| "num_of_dec (Dec s m e) =
     Fin ((if s then - 1 else 1) *
          (if 0 \<le> e then real m * 10 ^ nat e else real m / 10 ^ nat (- e)))"

text \<open>
  \<open>Number::toString\<close> of ECMAScript (radix 10). With \<open>k\<close> the number of digits and
  \<open>n\<close> the position of the decimal point: an integer of at most 21 digits is written
  out, a number with \<open>0 < n \<le> 21\<close> gets a decimal point inside its digits, one with
  \<open>-6 < n \<le> 0\<close> starts \<open>0.\<close> followed by \<open>-n\<close> zeros, and everything else is in
  exponent notation.
\<close>

fun ToString :: "jsdec \<Rightarrow> string" where
  "ToString DNaN = ''NaN''"
| "ToString (DInf s) = (if s then ''-Infinity'' else ''Infinity'')"
| "ToString (Dec s m e) =
     (if m = 0 then ''0''
      else (if s then ''-'' else []) @
        (let ds = digits m; k = int (length ds); n = e + k in
         if k \<le> n \<and> n \<le> 21 then ds @ replicate (nat (n - k)) CHR ''0''
         else if 0 < n \<and> n \<le> 21 then take (nat n) ds @ ''.'' @ drop (nat n) ds
         else if - 6 < n \<and> n \<le> 0 then ''0.'' @ replicate (nat (- n)) CHR ''0'' @ ds
         else
           (let es = (if n - 1 < 0 then ''-'' else ''+'') @ digits (nat \<bar>n - 1\<bar>)
            in if k = 1 then ds @ ''e'' @ es
               else take 1 ds @ ''.'' @ drop 1 ds @ ''e'' @ es)))"

section \<open>medianOf3\<close>

text \<open>
  \<open>[a, b, c].sort()[1]\<close>. \<open>Array.prototype.sort\<close> without a comparison function
  converts the elements to strings and orders them by the strings' code units; the sort
  is stable. \<open>sort_key\<close> is the stable insertion sort by a key, and the order on
  \<open>string\<close> is the lexicographic order of the characters' codes.
\<close>

definition medianOf3 :: "jsdec \<Rightarrow> jsdec \<Rightarrow> jsdec \<Rightarrow> jsdec" where
  "medianOf3 a b c = sort_key ToString [a, b, c] ! 1"

section \<open>Promises and the outside world\<close>

text \<open>
  A promise ends resolved with a value, rejected with an error, or never settles.
  \<open>TypeError\<close> is what reading a property of \<open>undefined\<close> or \<open>null\<close> throws;
  \<open>RequestError\<close> is the rejection of an outbound request, with its message.
\<close>

datatype error = TypeError | RequestError string

datatype 'a promise = Resolved 'a | Rejected error | Pending

fun then_p :: "'a promise \<Rightarrow> ('a \<Rightarrow> 'b promise) \<Rightarrow> 'b promise" where
  "then_p (Resolved x) f = f x"
| "then_p (Rejected e) f = Rejected e"
| "then_p Pending f = Pending"

fun of_result :: "error + 'a \<Rightarrow> 'a promise" where
  "of_result (Inl e) = Rejected e"
| "of_result (Inr x) = Resolved x"

text \<open>
  \<open>Promise.all\<close> of two promises: rejected as soon as one of them is, resolved when
  both are. When both reject, the model reports the first one's error (JavaScript reports
  the one that rejected first in time).
\<close>

fun all2 :: "'a promise \<Rightarrow> 'b promise \<Rightarrow> ('a \<times> 'b) promise" where
  "all2 (Rejected e) _ = Rejected e"
| "all2 _ (Rejected e) = Rejected e"
| "all2 (Resolved x) (Resolved y) = Resolved (x, y)"
| "all2 _ _ = Pending"

text \<open>
  The body of the quote API's answer, as far as the ticker reads it
  (\<open>cmcTickerJson.data.XLM.quote.USD.percent_change_24h\<close>):
  \<^item> \<open>NoData\<close>: there is no \<open>data\<close> object, so reading \<open>data.XLM\<close> throws;
  \<^item> \<open>NoXLM body\<close>: \<open>data\<close> has no \<open>XLM\<close> entry; \<open>body\<close> is the answer's JSON text;
  \<^item> \<open>NoQuote\<close>: the entry is there but \<open>quote.USD\<close> cannot be read;
  \<^item> \<open>Quote p\<close>: the entry with \<open>percent_change_24h\<close> read as the number \<open>p\<close>.
\<close>

datatype cmc_json = NoData | NoXLM string | NoQuote | Quote jsnum

fun missing_XLM :: "cmc_json \<Rightarrow> bool" where
  "missing_XLM (NoXLM _) = True"
| "missing_XLM _ = False"

record horizonMain =
  core_latest_ledger :: nat
  network_passphrase :: string

record leg =
  leg_code :: string
  leg_issuer :: "string option"

record directory_asset =
  dir_code :: string
  dir_issuer :: "string option"
  dir_domain :: string

text \<open>An order book entry and a trade aggregation bucket, with their fields read as numbers.\<close>

record offer =
  offer_price :: jsnum
  offer_amount :: jsnum

record orderbook =
  bids :: "offer list"
  asks :: "offer list"

record trade_record =
  close :: jsdec
  base_volume :: jsnum
  counter_volume :: jsnum
  trade_count :: jsnum

text \<open>
  Everything a run reads from outside: the answers of the price sources, of the quote
  API (by retry count), of the ledger service (by pair) and of the directory.
  \<open>niceRound\<close> and \<open>hideCMCKey\<close> are modules of the repository that the ticker imports;
  they are parameters here.
\<close>

record env =
  horizon_root :: "error + horizonMain"
  stellarterm_version :: "string option"
  btc_sources :: "source list"
  xlm_sources :: "source list"
  cmc :: "nat \<Rightarrow> error + cmc_json"
  directory_init :: "error option"
  directory_buildID :: string
  directory_assets :: "(string \<times> directory_asset) list"
  directory_anchors :: "string \<rightharpoonup> string"
  directory_pairs :: "(string \<times> leg \<times> leg) list"
  server_orderbook :: "string \<Rightarrow> error + orderbook"
  server_tradeAggregation :: "string \<Rightarrow> error + trade_record list"
  niceRound :: "jsnum \<Rightarrow> jsnum"
  hideCMCKey :: "string \<Rightarrow> string"

section \<open>Phase 1\<close>

text \<open>
  What happens on the quote API's side of a run, in order: a request (with its retry
  count), a timer of so many milliseconds, a line of the error log.
\<close>

datatype event = Request nat | Wait nat | LogError string

text \<open>
  \<open>coinmarketcapReqeust(retryCount = 0)\<close>. A rejected request rejects the promise. On an
  answer without the \<open>XLM\<close> entry and fewer than 10 retries so far, the function logs,
  waits one second and calls itself; the promise it returns then resolves when the
  retry resolves, and never settles when the retry rejects (the timer's callback passes
  no rejection on).
\<close>

function coinmarketcapReqeust ::
  "(nat \<Rightarrow> error + cmc_json) \<Rightarrow> nat \<Rightarrow> event list \<times> cmc_json promise" where
  "coinmarketcapReqeust rp retryCount =
     (case rp retryCount of
        Inl e \<Rightarrow> ([Request retryCount], Rejected e)
      | Inr NoData \<Rightarrow> ([Request retryCount], Rejected TypeError)
      | Inr cmcTickerJson \<Rightarrow>
          if missing_XLM cmcTickerJson \<and> retryCount < 10 then
            (let (evs, retry) = coinmarketcapReqeust rp (retryCount + 1)
             in (Request retryCount #
                 LogError (''Coinmarketcap missing response: retry attempt '' @
                           digits (retryCount + 1)) #
                 Wait 1000 # evs,
                 case retry of Resolved d \<Rightarrow> Resolved d | _ \<Rightarrow> Pending))
          else ([Request retryCount], Resolved cmcTickerJson))"
  by pat_completeness auto
termination
  by (relation "measure (\<lambda>(rp, retryCount). 10 - retryCount)") auto

declare coinmarketcapReqeust.simps [simp del]

datatype version = VersionText string | VersionNumber int

definition getHorizonMain :: "env \<Rightarrow> horizonMain promise" where
  "getHorizonMain env = of_result (horizon_root env)"

text \<open>
  \<open>getStellarTermDotComVersion\<close> never rejects: a failed request, or a page without the
  version marker, gives \<open>-1\<close>.
\<close>

definition getStellarTermDotComVersion :: "env \<Rightarrow> version promise" where
  "getStellarTermDotComVersion env =
     (case stellarterm_version env of
        Some v \<Rightarrow> Resolved (VersionText v)
      | None \<Rightarrow> Resolved (VersionNumber (- 1)))"

record meta =
  apiLicense :: string
  horizon :: horizonMain
  stellarTermVersion :: version
  externalPrices :: externalPrices
  build_id :: "string option"

text \<open>
  The third chain of \<open>phase1\<close>: the external prices, the fallback for the price of 24
  hours ago, the quote API request and the handler of its answer.
\<close>

definition cmc_handler :: "externalPrices \<Rightarrow> cmc_json \<Rightarrow> event list \<times> externalPrices promise" where
  "cmc_handler ep cmcTickerJson =
     (case cmcTickerJson of
        NoData \<Rightarrow> ([], Rejected TypeError)
      | NoXLM body \<Rightarrow> ([LogError (''Coinmarketcap missing response: '' @ body)], Resolved ep)
      | NoQuote \<Rightarrow> ([], Rejected TypeError)
      | Quote percent_change_24h \<Rightarrow>
          (let newPriceRatio = jsadd (Fin 1) (jsdiv percent_change_24h (Fin 100));
               oldPrice = jsmul (jsdiv (Fin 1) newPriceRatio) (USD_XLM ep)
           in ([], Resolved (ep\<lparr> USD_XLM_24hAgo := Some (round_js oldPrice 6),
                                  USD_XLM_change := Some (round_js percent_change_24h 6) \<rparr>))))"

definition prices_chain :: "env \<Rightarrow> event list \<times> externalPrices promise" where
  "prices_chain env =
     (let externalPrices = getExternalPrices (btc_sources env) (xlm_sources env);
          ep = externalPrices\<lparr> USD_XLM_24hAgo := Some (USD_XLM externalPrices) \<rparr>;
          (evs, answer) = coinmarketcapReqeust (cmc env) 0
      in case answer of
           Resolved cmcTickerJson \<Rightarrow>
             (let (evs', r) = cmc_handler ep cmcTickerJson in (evs @ evs', r))
         | Rejected e \<Rightarrow> (evs, Rejected e)
         | Pending \<Rightarrow> (evs, Pending))"

definition phase1 :: "env \<Rightarrow> event list \<times> meta promise" where
  "phase1 env =
     (let (evs, prices) = prices_chain env
      in (evs,
          then_p (all2 (getHorizonMain env) (all2 (getStellarTermDotComVersion env) prices))
            (\<lambda>(main, version, ep).
               Resolved \<lparr> apiLicense = ''Apache-2.0'', horizon = main,
                          stellarTermVersion = version, externalPrices = ep,
                          build_id = None \<rparr>)))"

section \<open>The ticker document\<close>

text \<open>
  A field of an asset or of a pair that a phase fills in later is \<open>None\<close> (JavaScript's
  \<open>undefined\<close>) until then; read as a number, an absent field is \<open>NaN\<close>. The two
  24-hour change fields can also hold \<open>null\<close>.
\<close>

fun num :: "jsnum option \<Rightarrow> jsnum" where
  "num None = NaN"
| "num (Some x) = x"

datatype nullable = Undefined | Null | Num jsnum

record asset =
  asset_id :: string
  code :: string
  issuer :: "string option"
  domain :: string
  slug :: string
  website :: string
  price_XLM :: "jsnum option"
  price_USD :: "jsnum option"
  topTradePairSlug :: "string option"
  change24h_XLM :: nullable
  change24h_USD :: nullable
  volume24h_XLM :: "jsnum option"
  volume24h_USD :: "jsnum option"
  numTrades24h :: "jsnum option"
  numTradeRecords24h :: "jsnum option"
  spread :: "jsnum option"
  numBids :: "jsnum option"
  numAsks :: "jsnum option"
  depth10_XLM :: "jsnum option"
  depth10_USD :: "jsnum option"
  activityScore :: "jsnum option"

record pair =
  baseBuying :: leg
  counterSelling :: leg
  bid :: "jsnum option"
  ask :: "jsnum option"
  pair_spread :: "jsnum option"
  price :: "jsnum option"
  depth10Amount :: "jsnum option"
  pair_volume24h_XLM :: "jsnum option"
  pair_numTrades24h :: "jsnum option"

record ticker =
  meta :: meta
  assets :: "asset list"
  pairs :: "(string \<times> pair) list"

definition new_asset :: "string \<Rightarrow> string \<Rightarrow> string option \<Rightarrow> string \<Rightarrow> string \<Rightarrow> string \<Rightarrow> asset" where
  "new_asset i c iss d s w =
     \<lparr> asset_id = i, code = c, issuer = iss, domain = d, slug = s, website = w,
       price_XLM = None, price_USD = None, topTradePairSlug = None,
       change24h_XLM = Undefined, change24h_USD = Undefined,
       volume24h_XLM = None, volume24h_USD = None, numTrades24h = None,
       numTradeRecords24h = None, spread = None, numBids = None, numAsks = None,
       depth10_XLM = None, depth10_USD = None, activityScore = None \<rparr>"

section \<open>Phase 2: loadAssets\<close>

text \<open>
  The native asset comes first, with its price set; then one asset per entry of the
  directory, in the directory's order. Reading the website of an anchor that the
  directory does not list throws.
\<close>

definition native_asset :: "jsnum \<Rightarrow> asset" where
  "native_asset usd_xlm =
     (new_asset ''XLM-native'' ''XLM'' None ''native'' ''XLM-native''
        ''https://www.stellar.org/lumens/'')
     \<lparr> price_XLM := Some (Fin 1), price_USD := Some usd_xlm \<rparr>"

fun push_directory_assets ::
  "(string \<rightharpoonup> string) \<Rightarrow> (string \<times> directory_asset) list \<Rightarrow> asset list \<Rightarrow> error + asset list" where
  "push_directory_assets anchors [] acc = Inr acc"
| "push_directory_assets anchors ((i, a) # rest) acc =
     (case anchors (dir_domain a) of
        None \<Rightarrow> Inl TypeError
      | Some w \<Rightarrow>
          push_directory_assets anchors rest
            (acc @ [new_asset i (dir_code a) (dir_issuer a) (dir_domain a)
                      (dir_code a @ ''-'' @ dir_domain a) w]))"

definition loadAssets :: "env \<Rightarrow> ticker \<Rightarrow> ticker promise" where
  "loadAssets env t =
     (let t1 = t\<lparr> assets := [native_asset (USD_XLM (externalPrices (meta t)))] \<rparr>
      in case directory_init env of
           Some e \<Rightarrow> Rejected e
         | None \<Rightarrow>
             (let t2 = t1\<lparr> meta := (meta t1)\<lparr> build_id := Some (directory_buildID env) \<rparr> \<rparr>
              in case push_directory_assets (directory_anchors env) (directory_assets env)
                        (assets t2) of
                   Inl e \<Rightarrow> Rejected e
                 | Inr as \<Rightarrow> Resolved (t2\<lparr> assets := as \<rparr>)))"

section \<open>Phase 3: pairs\<close>

text \<open>
  A leg of a pair is an asset of the ledger: a code and an issuer, or the native asset,
  which has no issuer. The legs of the directory's pairs are taken to be well-formed
  (the SDK's \<open>Asset\<close> constructor throws on others).
\<close>

definition isNative :: "leg \<Rightarrow> bool" where
  "isNative l = (leg_issuer l = None)"

text \<open>\<open>_.find(ticker.assets, {code, issuer})\<close>: the first asset with this code and issuer.\<close>

fun find_from :: "nat \<Rightarrow> asset list \<Rightarrow> string \<Rightarrow> string option \<Rightarrow> nat option" where
  "find_from i [] c iss = None"
| "find_from i (a # as) c iss =
     (if code a = c \<and> issuer a = iss then Some i else find_from (Suc i) as c iss)"

definition find_asset :: "asset list \<Rightarrow> leg \<Rightarrow> nat option" where
  "find_asset as l = find_from 0 as (leg_code l) (leg_issuer l)"

text \<open>
  The first, synchronous part of the callback of a pair: the asset of the pair's
  non-native leg is looked up and its \<open>topTradePairSlug\<close> set. The asset is an object
  shared with \<open>ticker.assets\<close>; the model keeps its index. A look-up that finds nothing
  gives \<open>undefined\<close>, and the assignment to its field throws. A pair without a native
  leg has no asset.
\<close>

definition lookup_asset :: "asset list \<Rightarrow> string \<Rightarrow> pair \<Rightarrow> error + (asset list \<times> nat option)" where
  "lookup_asset as pairSlug p =
     (if isNative (baseBuying p) then
        (case find_asset as (counterSelling p) of
           None \<Rightarrow> Inl TypeError
         | Some i \<Rightarrow> Inr (as[i := (as ! i)\<lparr> topTradePairSlug := Some pairSlug \<rparr>], Some i))
      else if isNative (counterSelling p) then
        (case find_asset as (baseBuying p) of
           None \<Rightarrow> Inl TypeError
         | Some i \<Rightarrow> Inr (as[i := (as ! i)\<lparr> topTradePairSlug := Some pairSlug \<rparr>], Some i))
      else Inr (as, None))"

fun lookup_assets ::
  "asset list \<Rightarrow> (string \<times> pair) list \<Rightarrow> error + (asset list \<times> nat option list)" where
  "lookup_assets as [] = Inr (as, [])"
| "lookup_assets as ((pairSlug, p) # ps) =
     (case lookup_asset as pairSlug p of
        Inl e \<Rightarrow> Inl e
      | Inr (as1, r) \<Rightarrow>
          (case lookup_assets as1 ps of
             Inl e \<Rightarrow> Inl e
           | Inr (as2, rs) \<Rightarrow> Inr (as2, r # rs)))"

text \<open>
  The order book handler up to the depth: best bid and ask, spread, price, and the depth
  of the market on both sides of the price.
\<close>

definition sum10PercentBidAmounts :: "jsnum \<Rightarrow> offer list \<Rightarrow> jsnum" where
  "sum10PercentBidAmounts pr res_bids =
     sumBy res_bids
       (\<lambda>bid. if jsge (jsdiv (offer_price bid) pr) (Fin (9 / 10))
               then offer_amount bid else Fin 0)"

definition sum10PercentAskAmounts :: "jsnum \<Rightarrow> offer list \<Rightarrow> jsnum" where
  "sum10PercentAskAmounts pr res_asks =
     sumBy res_asks
       (\<lambda>ask. if jsle (jsdiv (offer_price ask) pr) (Fin (11 / 10))
               then offer_amount ask else Fin 0)"

definition pair_price :: "pair \<Rightarrow> offer \<Rightarrow> offer \<Rightarrow> jsnum" where
  "pair_price p best_bid best_ask =
     (let b = round_js (offer_price best_bid) 7;
          a = round_js (offer_price best_ask) 7;
          s = round_js (jssub (Fin 1) (jsdiv b a)) 4;
          mid = round_js (jsdiv (jsadd b a) (Fin 2)) 7
      in if jsgt s (Fin (4 / 10)) \<and> isNative (counterSelling p) then b else mid)"

text \<open>
  \<open>None\<close> is the early return on an order book with an empty side: the pair keeps no
  metric and no trade aggregation is requested.
\<close>

definition orderbook_metrics :: "pair \<Rightarrow> orderbook \<Rightarrow> pair option" where
  "orderbook_metrics p res =
     (case (bids res, asks res) of
        (best_bid # _, best_ask # _) \<Rightarrow>
          (let b = round_js (offer_price best_bid) 7;
               a = round_js (offer_price best_ask) 7;
               pr = pair_price p best_bid best_ask
           in Some (p\<lparr> bid := Some b, ask := Some a,
                        pair_spread := Some (round_js (jssub (Fin 1) (jsdiv b a)) 4),
                        price := Some pr,
                        depth10Amount :=
                          Some (round_js (Math_min (sum10PercentBidAmounts pr (bids res))
                                                   (sum10PercentAskAmounts pr (asks res))) 0) \<rparr>))
      | _ \<Rightarrow> None)"

text \<open>
  The trade aggregation handler. The records come newest first, so the last three
  are the oldest; they are read only when there are more than 6 records.
\<close>

definition open_reference :: "trade_record list \<Rightarrow> jsdec" where
  "open_reference records =
     (let n = length records
      in medianOf3 (close (records ! (n - 1))) (close (records ! (n - 2)))
                   (close (records ! (n - 3))))"

definition changes :: "jsnum \<Rightarrow> jsnum \<Rightarrow> jsnum \<Rightarrow> jsnum \<Rightarrow> nullable \<times> nullable" where
  "changes openXLM closeXLM XLMOldPrice XLMNewPrice =
     (let openUSD = jsmul openXLM XLMOldPrice;
          closeUSD = jsmul closeXLM XLMNewPrice
      in (Num (round_js (jsmul (Fin 100) (jssub (jsdiv closeXLM openXLM) (Fin 1))) 2),
          Num (round_js (jsmul (Fin 100) (jssub (jsdiv closeUSD openUSD) (Fin 1))) 2)))"

text \<open>
  The running totals of the native asset's volume, and the assets as the handlers have
  changed them so far.
\<close>

record acc =
  acc_assets :: "asset list"
  lumenVolumeXLM :: jsnum
  lumenVolumeUSD :: jsnum

text \<open>The part of the handler that both orientations of a pair share (from \<open>pair.numTrades24h\<close> on).\<close>

definition record_metrics ::
  "(jsnum \<Rightarrow> jsnum) \<Rightarrow> externalPrices \<Rightarrow> string \<Rightarrow> orderbook \<Rightarrow> trade_record list \<Rightarrow>
   nat \<Rightarrow> pair \<Rightarrow> asset \<Rightarrow> acc \<Rightarrow> pair \<times> acc" where
  "record_metrics nice ep pairSlug res records i p a st =
     (let trades = sumBy records trade_count;
          p1 = p\<lparr> pair_numTrades24h := Some trades \<rparr>;
          vol = num (pair_volume24h_XLM p1);
          vol_usd = nice (jsmul vol (USD_XLM ep));
          d_xlm = nice (num (depth10Amount p1));
          a1 = a\<lparr> numTrades24h := Some trades,
                  numTradeRecords24h := Some (Fin (real (length records))),
                  volume24h_XLM := pair_volume24h_XLM p1,
                  volume24h_USD := Some vol_usd,
                  spread := pair_spread p1,
                  topTradePairSlug := Some pairSlug,
                  numBids := Some (Fin (real (length (bids res)))),
                  numAsks := Some (Fin (real (length (asks res)))),
                  depth10_XLM := Some d_xlm,
                  depth10_USD := Some (nice (jsmul d_xlm (USD_XLM ep))) \<rparr>
      in (p1, st\<lparr> acc_assets := (acc_assets st)[i := a1],
                   lumenVolumeXLM := jsadd (lumenVolumeXLM st) vol,
                   lumenVolumeUSD := jsadd (lumenVolumeUSD st) vol_usd \<rparr>))"

definition trades_handler ::
  "(jsnum \<Rightarrow> jsnum) \<Rightarrow> externalPrices \<Rightarrow> string \<Rightarrow> orderbook \<Rightarrow> trade_record list \<Rightarrow>
   nat option \<Rightarrow> pair \<Rightarrow> acc \<Rightarrow> error + (pair \<times> acc)" where
  "trades_handler nice ep pairSlug res records asset_ref p st =
     (let XLMOldPrice = num (USD_XLM_24hAgo ep);
          XLMNewPrice = USD_XLM ep;
          pr = num (price p)
      in if isNative (baseBuying p) then
           (case asset_ref of
              None \<Rightarrow> Inl TypeError
            | Some i \<Rightarrow>
                (let (cx, cu) =
                       (if length records > 6 then
                          changes (jsdiv (Fin 1) (num_of_dec (open_reference records)))
                                  (jsdiv (Fin 1) pr) XLMOldPrice XLMNewPrice
                        else (Null, Null));
                     a = (acc_assets st ! i)
                           \<lparr> change24h_XLM := cx, change24h_USD := cu,
                             price_XLM := Some (nice (jsdiv (Fin 1) pr)),
                             price_USD := Some (nice (jsmul (jsdiv (Fin 1) pr) (USD_XLM ep))) \<rparr>;
                     p1 = p\<lparr> pair_volume24h_XLM := Some (nice (sumBy records base_volume)) \<rparr>
                 in Inr (record_metrics nice ep pairSlug res records i p1 a st)))
         else if isNative (counterSelling p) then
           (case asset_ref of
              None \<Rightarrow> Inl TypeError
            | Some i \<Rightarrow>
                (let (cx, cu) =
                       (if length records > 6 then
                          changes (num_of_dec (open_reference records)) pr XLMOldPrice XLMNewPrice
                        else (Null, Null));
                     a = (acc_assets st ! i)
                           \<lparr> change24h_XLM := cx, change24h_USD := cu,
                             price_XLM := Some (nice pr),
                             price_USD := Some (nice (jsmul pr (USD_XLM ep))) \<rparr>;
                     p1 = p\<lparr> pair_volume24h_XLM := Some (nice (sumBy records counter_volume)) \<rparr>
                 in Inr (record_metrics nice ep pairSlug res records i p1 a st)))
         else Inr (p, st))"

text \<open>
  The asynchronous part of a pair's callback: the order book request, its handler, the
  trade aggregation request and its handler. A rejected request rejects the callback.
\<close>

definition pair_task ::
  "env \<Rightarrow> externalPrices \<Rightarrow> string \<Rightarrow> pair \<Rightarrow> nat option \<Rightarrow> acc \<Rightarrow> error + (pair \<times> acc)" where
  "pair_task env ep pairSlug p asset_ref st =
     (case server_orderbook env pairSlug of
        Inl e \<Rightarrow> Inl e
      | Inr res \<Rightarrow>
          (case orderbook_metrics p res of
             None \<Rightarrow> Inr (p, st)
           | Some p1 \<Rightarrow>
               (case server_tradeAggregation env pairSlug of
                  Inl e \<Rightarrow> Inl e
                | Inr records \<Rightarrow>
                    trades_handler (niceRound env) ep pairSlug res records asset_ref p1 st)))"

text \<open>
  The callbacks run one after the other, in the order of the pairs. (In JavaScript they
  interleave at the requests; each works on its own pair, and on the asset it looked up.)
\<close>

fun pair_tasks ::
  "env \<Rightarrow> externalPrices \<Rightarrow> ((string \<times> pair) \<times> nat option) list \<Rightarrow> acc \<Rightarrow>
   error + ((string \<times> pair) list \<times> acc)" where
  "pair_tasks env ep [] st = Inr ([], st)"
| "pair_tasks env ep (((pairSlug, p), asset_ref) # rest) st =
     (case pair_task env ep pairSlug p asset_ref st of
        Inl e \<Rightarrow> Inl e
      | Inr (p1, st1) \<Rightarrow>
          (case pair_tasks env ep rest st1 of
             Inl e \<Rightarrow> Inl e
           | Inr (ps, st2) \<Rightarrow> Inr ((pairSlug, p1) # ps, st2)))"

definition new_pair :: "leg \<Rightarrow> leg \<Rightarrow> pair" where
  "new_pair b c =
     \<lparr> baseBuying = b, counterSelling = c, bid = None, ask = None, pair_spread = None,
       price = None, depth10Amount = None, pair_volume24h_XLM = None,
       pair_numTrades24h = None \<rparr>"

definition phase3 :: "env \<Rightarrow> ticker \<Rightarrow> ticker promise" where
  "phase3 env t =
     (let ps = map (\<lambda>(pairSlug, b, c). (pairSlug, new_pair b c)) (directory_pairs env)
      in case lookup_assets (assets t) ps of
           Inl e \<Rightarrow> Rejected e
         | Inr (as, refs) \<Rightarrow>
             (case pair_tasks env (externalPrices (meta t)) (zip ps refs)
                     \<lparr> acc_assets = as, lumenVolumeXLM = Fin 0, lumenVolumeUSD = Fin 0 \<rparr> of
                Inl e \<Rightarrow> Rejected e
              | Inr (ps1, st) \<Rightarrow>
                  (case acc_assets st of
                     [] \<Rightarrow> Rejected TypeError
                   | a0 # rest \<Rightarrow>
                       Resolved (t\<lparr> assets :=
                                     a0\<lparr> volume24h_XLM := Some (niceRound env (lumenVolumeXLM st)),
                                         volume24h_USD := Some (niceRound env (lumenVolumeUSD st)) \<rparr>
                                     # rest,
                                   pairs := ps1 \<rparr>))))"

section \<open>Phase 4: activity scores\<close>

fun Math_log :: "jsnum \<Rightarrow> jsnum" where
  "Math_log (Fin x) = (if x < 0 then NaN else if x = 0 then NInf else Fin (ln x))"
| "Math_log PInf = PInf"
| "Math_log _ = NaN"

text \<open>\<open>Math.pow(x, 3)\<close>.\<close>

fun cube :: "jsnum \<Rightarrow> jsnum" where
  "cube (Fin x) = Fin (x ^ 3)"
| "cube a = a"

definition score :: "asset \<Rightarrow> jsnum" where
  "score a =
     (let numOffersScore = jsdiv (jsadd (num (numBids a)) (num (numAsks a))) (Fin 20);
          constantActivityBonus = jsdiv (Math_min (Fin 12) (num (numTradeRecords24h a))) (Fin 24);
          nonzeroVolumeBonus = Math_min (Fin 1) (jsdiv (num (volume24h_USD a)) (Fin 100));
          bonuses = jsadd (jsadd numOffersScore constantActivityBonus) nonzeroVolumeBonus;
          depth10Score0 =
            jsmul (Fin (1 / 2))
              (jssub (jsdiv (Math_log (jsadd (Fin 2) (num (depth10_USD a)))) (Math_log (Fin 2)))
                     (Fin 1));
          depth10Score =
            jsadd depth10Score0 (Math_min (Fin 10) (jsdiv (num (depth10_USD a)) (Fin 10000)));
          volumeScore =
            jssub (jsdiv (Math_log (jsadd (Fin 4) (num (volume24h_USD a)))) (Math_log (Fin 4)))
                  (Fin 1);
          numTradesScore0 =
            jssub (jsdiv (Math_log (jsadd (Fin 4) (num (numTrades24h a)))) (Math_log (Fin 4)))
                  (Fin 1);
          numTradesScore =
            jsadd numTradesScore0 (Math_min (Fin 7) (jsdiv (num (numTradeRecords24h a)) (Fin 8)));
          spreadPenalty = cube (jssub (Fin 1) (num (spread a)))
      in jsmul spreadPenalty
           (jsadd (jsadd (jsadd bonuses depth10Score) volumeScore) numTradesScore))"

definition assign_score :: "asset \<Rightarrow> asset" where
  "assign_score a =
     (if asset_id a = ''XLM-native'' then a\<lparr> activityScore := Some (Fin 100) \<rparr>
      else if price_XLM a = None then a\<lparr> activityScore := Some (Fin 0) \<rparr>
      else a\<lparr> activityScore := Some (score a) \<rparr>)"

text \<open>
  \<open>Array.prototype.sort\<close> with a comparison function: \<open>x\<close> goes behind \<open>y\<close> when
  \<open>cmp x y > 0\<close>, and a result that is \<open>NaN\<close> counts as \<open>0\<close>. The sort is stable; it
  is modelled as the stable insertion sort, with which every stable sort agrees when the
  comparison function is consistent (it is, on scores that are finite).
\<close>

fun insert_by :: "('a \<Rightarrow> 'a \<Rightarrow> jsnum) \<Rightarrow> 'a \<Rightarrow> 'a list \<Rightarrow> 'a list" where
  "insert_by cmp x [] = [x]"
| "insert_by cmp x (y # ys) =
     (if jsgt (cmp x y) (Fin 0) then y # insert_by cmp x ys else x # y # ys)"

definition Array_sort :: "('a \<Rightarrow> 'a \<Rightarrow> jsnum) \<Rightarrow> 'a list \<Rightarrow> 'a list" where
  "Array_sort cmp xs = foldr (insert_by cmp) xs []"

definition by_score :: "asset \<Rightarrow> asset \<Rightarrow> jsnum" where
  "by_score a b = jssub (num (activityScore b)) (num (activityScore a))"

definition round_score :: "asset \<Rightarrow> asset" where
  "round_score a = a\<lparr> activityScore := Some (round_js (num (activityScore a)) 3) \<rparr>"

definition phase4 :: "ticker \<Rightarrow> ticker" where
  "phase4 t = t\<lparr> assets := map round_score (Array_sort by_score (map assign_score (assets t))) \<rparr>"

section \<open>The generator\<close>

definition tickerDataGenerator :: "env \<Rightarrow> ticker promise" where
  "tickerDataGenerator env =
     then_p (snd (phase1 env)) (\<lambda>m.
     then_p (loadAssets env \<lparr> meta = m, assets = [], pairs = [] \<rparr>) (\<lambda>t2.
     then_p (phase3 env t2) (\<lambda>t3.
     Resolved (phase4 t3))))"

text \<open>
  The files of a run. The ticker document is kept as the document itself; the state
  file is its JSON text (an \<open>Error\<close> object has no enumerable property and prints as
  \<open>{}\<close>; a rejected request carries the text it prints as). The \<open>log\<close> of the result is
  not modelled.
\<close>

datatype artifact = TickerJson ticker | StateJson string

record result =
  files :: "(string \<times> artifact) list"

definition quoted :: "string \<Rightarrow> string" where
  "quoted s = CHR 0x22 # s @ [CHR 0x22]"

fun error_json :: "error \<Rightarrow> string" where
  "error_json TypeError = ''{}''"
| "error_json (RequestError text) = text"

definition state_json :: "string \<Rightarrow> error option \<Rightarrow> string" where
  "state_json tickerState e =
     ''{'' @ quoted ''tickerState'' @ '':'' @ quoted tickerState @ '','' @
     quoted ''error'' @ '':'' @ (case e of None \<Rightarrow> ''null'' | Some err \<Rightarrow> error_json err) @ ''}''"

definition tickerGenerator :: "env \<Rightarrow> result promise" where
  "tickerGenerator env =
     (case tickerDataGenerator env of
        Resolved t \<Rightarrow>
          Resolved \<lparr> files =
            [(''v1/ticker.json'', TickerJson t),
             (''v1/ticker-state.json'',
              StateJson (state_json ''Ticker successfully generated'' None))] \<rparr>
      | Rejected e \<Rightarrow>
          Resolved \<lparr> files =
            [(''v1/ticker-state.json'',
              StateJson (hideCMCKey env (state_json ''Ticker generation failed'' (Some e))))] \<rparr>
      | Pending \<Rightarrow> Pending)"

section \<open>Notions of the specification\<close>




text \<open>
  A quote API that never sends the \<open>XLM\<close> entry: each of the requests with retry count
  0 to 10 is answered, without it. \<open>retry_events k\<close> is what one failed attempt leaves
  behind: the request, the line in the error log and the timer of one second.
\<close>

definition never_XLM :: "(nat \<Rightarrow> error + cmc_json) \<Rightarrow> bool" where
  "never_XLM rp =
     list_all (\<lambda>i. case rp i of Inr (NoXLM body) \<Rightarrow> True | _ \<Rightarrow> False) [0..<11]"

definition retry_events :: "nat \<Rightarrow> event list" where
  "retry_events k =
     [Request k,
      LogError (''Coinmarketcap missing response: retry attempt '' @ digits (k + 1)),
      Wait 1000]"

text \<open>An example run: one anchored asset, one pair with the native asset, all services up.\<close>

definition native_leg :: leg where
  "native_leg = \<lparr> leg_code = ''XLM'', leg_issuer = None \<rparr>"

definition usd_leg :: leg where
  "usd_leg = \<lparr> leg_code = ''USD'', leg_issuer = Some ''GANCHOR'' \<rparr>"

definition sample_orderbook :: orderbook where
  "sample_orderbook =
     \<lparr> bids = [\<lparr> offer_price = Fin (102 / 10), offer_amount = Fin 500 \<rparr>,
               \<lparr> offer_price = Fin 5, offer_amount = Fin 1000 \<rparr>],
       asks = [\<lparr> offer_price = Fin (104 / 10), offer_amount = Fin 300 \<rparr>,
               \<lparr> offer_price = Fin 20, offer_amount = Fin 1000 \<rparr>] \<rparr>"

definition bucket :: "jsdec \<Rightarrow> trade_record" where
  "bucket c = \<lparr> close = c, base_volume = Fin 10, counter_volume = Fin 100, trade_count = Fin 2 \<rparr>"

text \<open>Seven buckets, newest first; the three oldest close at 10.1, 10.2 and 9.5.\<close>

definition sample_records :: "trade_record list" where
  "sample_records =
     [bucket (Dec False 103 (- 1)), bucket (Dec False 103 (- 1)), bucket (Dec False 104 (- 1)),
      bucket (Dec False 102 (- 1)),
      bucket (Dec False 101 (- 1)), bucket (Dec False 102 (- 1)), bucket (Dec False 95 (- 1))]"

definition sample_env :: env where
  "sample_env =
     \<lparr> horizon_root = Inr \<lparr> core_latest_ledger = 1000, network_passphrase = ''Public'' \<rparr>,
       stellarterm_version = Some ''123'',
       btc_sources = [Some (Fin 100), Some (Fin 102), None, None],
       xlm_sources = [Some (Fin (11 / 100000)), Some (Fin (9 / 100000)), Some (Fin (1 / 10000))],
       cmc = (\<lambda>retryCount. Inr (Quote (Fin 1))),
       directory_init = None,
       directory_buildID = ''build-1'',
       directory_assets =
         [(''USD-GANCHOR'',
           \<lparr> dir_code = ''USD'', dir_issuer = Some ''GANCHOR'', dir_domain = ''anchor.example'' \<rparr>)],
       directory_anchors = [''anchor.example'' \<mapsto> ''https://anchor.example''],
       directory_pairs = [(''USD-anchor.example/XLM-native'', usd_leg, native_leg)],
       server_orderbook = (\<lambda>pairSlug. Inr sample_orderbook),
       server_tradeAggregation = (\<lambda>pairSlug. Inr sample_records),
       niceRound = (\<lambda>x. x),
       hideCMCKey = (\<lambda>text. text) \<rparr>"



text \<open>The ticker that \<open>tickerDataGenerator\<close> hands to phase 2, and the state file of a failed run.\<close>

definition ticker0 :: "meta \<Rightarrow> ticker" where
  "ticker0 m = \<lparr> meta = m, assets = [], pairs = [] \<rparr>"

definition failed_files :: "env \<Rightarrow> error \<Rightarrow> (string \<times> artifact) list" where
  "failed_files env e =
     [(''v1/ticker-state.json'',
       StateJson (hideCMCKey env (state_json ''Ticker generation failed'' (Some e))))]"

text \<open>The example run with the quote API down, and with a quote API that never sends the entry.\<close>

definition cmc_down_env :: env where
  "cmc_down_env = sample_env\<lparr> cmc := (\<lambda>retryCount. Inl (RequestError ''{}'')) \<rparr>"

definition no_entry_env :: env where
  "no_entry_env = sample_env\<lparr> cmc := (\<lambda>retryCount. Inr (NoXLM (digits retryCount))) \<rparr>"



text \<open>What phase 1 and phase 2 leave behind in the example run.\<close>

definition sample_meta :: meta where
  "sample_meta =
     \<lparr> apiLicense = ''Apache-2.0'',
       horizon = \<lparr> core_latest_ledger = 1000, network_passphrase = ''Public'' \<rparr>,
       stellarTermVersion = VersionText ''123'',
       externalPrices =
         \<lparr> USD_BTC = Fin 101, BTC_XLM = Fin (1 / 10000), USD_XLM = Fin (101 / 10000),
           USD_XLM_24hAgo = Some (Fin (1 / 100)), USD_XLM_change = Some (Fin 1) \<rparr>,
       build_id = None \<rparr>"

definition sample_assets :: "asset list" where
  "sample_assets =
     [native_asset (Fin (101 / 10000)),
      new_asset ''USD-GANCHOR'' ''USD'' (Some ''GANCHOR'') ''anchor.example''
        ''USD-anchor.example'' ''https://anchor.example'']"

definition sample_ticker2 :: ticker where
  "sample_ticker2 =
     \<lparr> meta = sample_meta\<lparr> build_id := Some ''build-1'' \<rparr>, assets = sample_assets, pairs = [] \<rparr>"

text \<open>
  A pair with a native leg whose other leg is no asset of the ticker: no asset has the
  code and the issuer of that leg.
\<close>

definition unmatched :: "asset list \<Rightarrow> pair \<Rightarrow> bool" where
  "unmatched as p =
     (if isNative (baseBuying p) then find_asset as (counterSelling p) = None
      else isNative (counterSelling p) \<and> find_asset as (baseBuying p) = None)"

definition eur_leg :: leg where
  "eur_leg = \<lparr> leg_code = ''EUR'', leg_issuer = Some ''GANCHOR'' \<rparr>"

definition orphan_pair_env :: env where
  "orphan_pair_env =
     sample_env\<lparr> directory_pairs :=
       [(''USD-anchor.example/XLM-native'', usd_leg, native_leg),
        (''XLM-native/EUR-anchor.example'', native_leg, eur_leg)] \<rparr>"

text \<open>The median of three reals, as the specification means it: the middle one by value.\<close>

definition numeric_median :: "real \<Rightarrow> real \<Rightarrow> real \<Rightarrow> real" where
  "numeric_median a b c = sort [a, b, c] ! 1"

text \<open>
  An asset with one bid and one ask, no trade, and a depth of \<open>2\<^sup>2\<^sup>0\<^sup>0 - 2\<close> in the
  reference currency.
\<close>

definition deep_asset :: asset where
  "deep_asset =
     (new_asset ''DEEP-GANCHOR'' ''DEEP'' (Some ''GANCHOR'') ''anchor.example''
        ''DEEP-anchor.example'' ''https://anchor.example'')
     \<lparr> price_XLM := Some (Fin 1), price_USD := Some (Fin (101 / 10000)),
       volume24h_XLM := Some (Fin 0), volume24h_USD := Some (Fin 0),
       numTrades24h := Some (Fin 0), numTradeRecords24h := Some (Fin 0),
       spread := Some (Fin 0), numBids := Some (Fin 1), numAsks := Some (Fin 1),
       depth10_XLM := Some (Fin (2 ^ 200 - 2)), depth10_USD := Some (Fin (2 ^ 200 - 2)) \<rparr>"

text \<open>An asset without a price, and one with ten bids, ten asks, a spread of 0.5 and no trade.\<close>

definition unpriced_asset :: asset where
  "unpriced_asset =
     new_asset ''EUR-GANCHOR'' ''EUR'' (Some ''GANCHOR'') ''anchor.example''
       ''EUR-anchor.example'' ''https://anchor.example''"

definition quiet_asset :: asset where
  "quiet_asset =
     (new_asset ''USD-GANCHOR'' ''USD'' (Some ''GANCHOR'') ''anchor.example''
        ''USD-anchor.example'' ''https://anchor.example'')
     \<lparr> price_XLM := Some (Fin 10), price_USD := Some (Fin (101 / 1000)),
       volume24h_XLM := Some (Fin 0), volume24h_USD := Some (Fin 0),
       numTrades24h := Some (Fin 0), numTradeRecords24h := Some (Fin 0),
       spread := Some (Fin (1 / 2)), numBids := Some (Fin 10), numAsks := Some (Fin 10),
       depth10_XLM := Some (Fin 0), depth10_USD := Some (Fin 0) \<rparr>"


text \<open>
  The parts of a printed number, for the proofs about printing: the digit characters,
  the sign, the exponent, the digits around the decimal point of the exponent notation,
  and the text after the sign. A digit string is \<open>shortest\<close> when it is that of a
  positive number without a trailing zero.
\<close>

definition is_digit :: "char \<Rightarrow> bool" where
  "is_digit c = (c \<in> set ''0123456789'')"

definition sign_str :: "bool \<Rightarrow> string" where
  "sign_str s = (if s then ''-'' else [])"

definition expo_str :: "int \<Rightarrow> string" where
  "expo_str x = (if x < 0 then ''-'' else ''+'') @ digits (nat \<bar>x\<bar>)"

definition mantissa :: "string \<Rightarrow> string" where
  "mantissa ds = (if length ds = 1 then ds else take 1 ds @ ''.'' @ drop 1 ds)"

definition dec_body :: "string \<Rightarrow> int \<Rightarrow> string" where
  "dec_body ds n =
     (let k = int (length ds) in
      if k \<le> n \<and> n \<le> 21 then ds @ replicate (nat (n - k)) CHR ''0''
      else if 0 < n \<and> n \<le> 21 then take (nat n) ds @ ''.'' @ drop (nat n) ds
      else if - 6 < n \<and> n \<le> 0 then ''0.'' @ replicate (nat (- n)) CHR ''0'' @ ds
      else mantissa ds @ ''e'' @ expo_str (n - 1))"

definition shortest :: "string \<Rightarrow> bool" where
  "shortest ds = (ds \<noteq> [] \<and> list_all is_digit ds \<and> hd ds \<noteq> CHR ''0'' \<and> last ds \<noteq> CHR ''0'')"

section \<open>Reconciliation of the external prices\<close>

















section \<open>The quote API: retries\<close>

lemma cmc_retries:
  assumes "\<And>i. k \<le> i \<Longrightarrow> i \<le> 10 \<Longrightarrow> \<exists>body. rp i = Inr (NoXLM body)" and "k \<le> 10"
  shows "coinmarketcapReqeust rp k =
           (concat (map retry_events [k..<10]) @ [Request 10], of_result (rp 10))"
  using assms
proof (induction "10 - k" arbitrary: k)
  case 0
  then have k: "k = 10" by simp
  from "0.prems"(1) [of 10] k obtain body where "rp 10 = Inr (NoXLM body)" by auto
  with k show ?case
    by (simp add: coinmarketcapReqeust.simps)
next
  case (Suc n)
  then have lt: "k < 10" by simp
  from Suc.prems(1) [of k] lt obtain body where b: "rp k = Inr (NoXLM body)" by auto
  have ih: "coinmarketcapReqeust rp (Suc k) =
           (concat (map retry_events [Suc k..<10]) @ [Request 10], of_result (rp 10))"
  proof (rule Suc.hyps(1))
    show "n = 10 - Suc k" using Suc.hyps(2) by simp
    show "\<And>i. Suc k \<le> i \<Longrightarrow> i \<le> 10 \<Longrightarrow> \<exists>body. rp i = Inr (NoXLM body)"
      using Suc.prems(1) by simp
    show "Suc k \<le> 10" using lt by simp
  qed
  from Suc.prems(1) [of 10] lt obtain body10 where b10: "rp 10 = Inr (NoXLM body10)" by auto
  have up: "[k..<10] = k # [Suc k..<10]" using lt by (simp add: upt_conv_Cons)
  show ?case
    by (subst coinmarketcapReqeust.simps) (simp add: b lt ih b10 up retry_events_def)
qed

lemma never_XLM_D: "never_XLM rp \<Longrightarrow> i \<le> 10 \<Longrightarrow> \<exists>body. rp i = Inr (NoXLM body)"
proof -
  assume n: "never_XLM rp" and i: "i \<le> 10"
  from i have "i \<in> set [0..<11]" by simp
  with n have "case rp i of Inr (NoXLM body) \<Rightarrow> True | _ \<Rightarrow> False"
    unfolding never_XLM_def list_all_iff by blast
  then show ?thesis
    by (auto split: sum.splits cmc_json.splits)
qed

text \<open>
  C6. When none of the answers to the requests with retry count 0 to 10 holds the \<open>XLM\<close>
  entry, the request is made 11 times: once, and then exactly 10 retries, each after
  a line in the error log and a timer of 1000 milliseconds. The promise resolves with
  the answer to the last request; the handler in \<open>phase1\<close> logs the anomaly and the chain
  resolves, with the price of 24 hours ago left at the current price.
\<close>

theorem C6_ten_retries_then_proceed:
  assumes "never_XLM (cmc env)"
  shows "fst (coinmarketcapReqeust (cmc env) 0) = concat (map retry_events [0..<10]) @ [Request 10] \<and>
         snd (coinmarketcapReqeust (cmc env) 0) = of_result (cmc env 10) \<and>
         (\<exists>body ep. cmc env 10 = Inr (NoXLM body) \<and>
            fst (prices_chain env) =
              concat (map retry_events [0..<10]) @
              [Request 10, LogError (''Coinmarketcap missing response: '' @ body)] \<and>
            snd (prices_chain env) = Resolved ep \<and>
            USD_XLM_24hAgo ep = Some (USD_XLM ep) \<and> USD_XLM_change ep = None)"
proof -
  have run: "coinmarketcapReqeust (cmc env) 0 =
               (concat (map retry_events [0..<10]) @ [Request 10], of_result (cmc env 10))"
    by (rule cmc_retries) (simp_all add: never_XLM_D [OF assms])
  from never_XLM_D [OF assms, of 10] obtain body where b: "cmc env 10 = Inr (NoXLM body)"
    by auto
  show ?thesis
    by (simp add: run b prices_chain_def cmc_handler_def getExternalPrices_def Let_def)
qed

theorem C6_witness:
  "fst (coinmarketcapReqeust (cmc no_entry_env) 0) =
     concat (map retry_events [0, 1, 2, 3, 4, 5, 6, 7, 8, 9]) @ [Request 10] \<and>
   snd (coinmarketcapReqeust (cmc no_entry_env) 0) = Resolved (NoXLM ''10'') \<and>
   length (filter (\<lambda>ev. ev = Wait 1000) (fst (coinmarketcapReqeust (cmc no_entry_env) 0))) = 10 \<and>
   last (fst (prices_chain no_entry_env)) = LogError ''Coinmarketcap missing response: 10''"
  using C6_ten_retries_then_proceed [of no_entry_env]
  by (simp add: no_entry_env_def never_XLM_def upt_rec retry_events_def digits.simps digit_char_def)

text \<open>
  A retry that rejects leaves the promise of the first call unsettled: the run then
  neither produces a ticker nor fails.
\<close>

lemma rejected_retry_never_settles:
  assumes "rp 0 = Inr (NoXLM body)" and "rp (Suc 0) = Inl e"
  shows "snd (coinmarketcapReqeust rp 0) = Pending"
proof -
  have "coinmarketcapReqeust rp (Suc 0) = ([Request (Suc 0)], Rejected e)"
    by (subst coinmarketcapReqeust.simps) (simp add: assms(2))
  then show ?thesis
    by (subst coinmarketcapReqeust.simps) (simp add: assms(1))
qed

section \<open>Failed runs\<close>

lemma phase1_rejected_by_cmc:
  assumes "cmc env 0 = Inl e"
  shows "snd (phase1 env) = Rejected (case horizon_root env of Inl h \<Rightarrow> h | Inr main \<Rightarrow> e)"
proof -
  have "coinmarketcapReqeust (cmc env) 0 = ([Request 0], Rejected e)"
    by (subst coinmarketcapReqeust.simps) (simp add: assms)
  then have "snd (prices_chain env) = Rejected e"
    by (simp add: prices_chain_def Let_def)
  then show ?thesis
    by (cases "horizon_root env")
       (simp_all add: phase1_def getHorizonMain_def getStellarTermDotComVersion_def
          split_beta Let_def split: option.splits)
qed

lemma tickerGenerator_rejected:
  "tickerDataGenerator env = Rejected e \<Longrightarrow> tickerGenerator env = Resolved \<lparr> files = failed_files env e \<rparr>"
  by (simp add: tickerGenerator_def failed_files_def)

lemma failed_files_no_ticker:
  "map_of (failed_files env e) ''v1/ticker.json'' = None \<and>
   map fst (failed_files env e) = [''v1/ticker-state.json'']"
  by (simp add: failed_files_def)

text \<open>
  C2, on the code: when the first request to the quote API rejects, the rejection
  passes through \<open>phase1\<close> (no handler catches it) and the run fails: it emits the
  failed state and no ticker. The fallback assigned before the request is lost with the ticker.
\<close>

theorem C2_quote_api_failure_fails_the_run:
  assumes "cmc env 0 = Inl e"
  shows "tickerDataGenerator env = Rejected (case horizon_root env of Inl h \<Rightarrow> h | Inr main \<Rightarrow> e) \<and>
         tickerGenerator env =
           Resolved \<lparr> files = failed_files env (case horizon_root env of Inl h \<Rightarrow> h | Inr main \<Rightarrow> e) \<rparr> \<and>
         map_of (failed_files env (case horizon_root env of Inl h \<Rightarrow> h | Inr main \<Rightarrow> e))
           ''v1/ticker.json'' = None"
proof -
  have "tickerDataGenerator env = Rejected (case horizon_root env of Inl h \<Rightarrow> h | Inr main \<Rightarrow> e)"
    by (simp add: tickerDataGenerator_def phase1_rejected_by_cmc [OF assms])
  then show ?thesis
    by (simp add: tickerGenerator_rejected failed_files_no_ticker)
qed

theorem C2_witness:
  "cmc cmc_down_env 0 = Inl (RequestError ''{}'') \<and>
   tickerDataGenerator cmc_down_env = Rejected (RequestError ''{}'') \<and>
   tickerGenerator cmc_down_env =
     Resolved \<lparr> files = [(''v1/ticker-state.json'',
       StateJson (state_json ''Ticker generation failed'' (Some (RequestError ''{}''))))] \<rparr>"
  using C2_quote_api_failure_fails_the_run [of cmc_down_env "RequestError ''{}''"]
  by (simp add: cmc_down_env_def sample_env_def failed_files_def)


subsection \<open>The example run, phase by phase\<close>

lemmas phase1_eval =
  phase1_def prices_chain_def coinmarketcapReqeust.simps
  cmc_handler_def getHorizonMain_def getStellarTermDotComVersion_def getExternalPrices_def
  getBtcPrice_def getLumenPrice_def non_null_def mean_js_def sum_js_def round_real_def

lemma sample_phase1: "snd (phase1 sample_env) = Resolved sample_meta"
  by (simp add: sample_env_def sample_meta_def phase1_eval)




lemma sample_phase2: "loadAssets sample_env (ticker0 sample_meta) = Resolved sample_ticker2"
  by (simp add: loadAssets_def sample_env_def ticker0_def sample_ticker2_def sample_assets_def
      sample_meta_def)




section \<open>Phase 3: the look-up of a pair's asset\<close>

lemma find_from_cong:
  "map code as = map code bs \<Longrightarrow> map issuer as = map issuer bs \<Longrightarrow>
   find_from i as c iss = find_from i bs c iss"
proof (induction as arbitrary: bs i)
  case Nil
  then show ?case by simp
next
  case (Cons a as)
  then obtain b bs' where bs: "bs = b # bs'" by (cases bs) auto
  with Cons.prems have "code a = code b" "issuer a = issuer b"
    "map code as = map code bs'" "map issuer as = map issuer bs'" by simp_all
  with Cons.IH [of bs' "Suc i"] bs show ?case by simp
qed

lemma map_update_same: "(map f xs)[i := f (xs ! i)] = map f xs"
  by (simp add: map_update [symmetric])

lemma lookup_asset_keeps_identity:
  assumes "lookup_asset as pairSlug p = Inr (bs, r)"
  shows "map code bs = map code as \<and> map issuer bs = map issuer as"
proof -
  have upd: "\<And>i. map code (as[i := (as ! i)\<lparr> topTradePairSlug := Some pairSlug \<rparr>]) = map code as \<and>
                 map issuer (as[i := (as ! i)\<lparr> topTradePairSlug := Some pairSlug \<rparr>]) = map issuer as"
    by (simp add: map_update map_update_same)
  from assms show ?thesis
    by (auto simp add: lookup_asset_def upd split: if_splits option.splits)
qed

lemma lookup_asset_error: "lookup_asset as pairSlug p = Inl e \<Longrightarrow> e = TypeError"
  by (auto simp add: lookup_asset_def split: if_splits option.splits)

lemma unmatched_cong:
  "map code as = map code bs \<Longrightarrow> map issuer as = map issuer bs \<Longrightarrow> unmatched as p = unmatched bs p"
  by (simp add: unmatched_def find_asset_def find_from_cong [of as bs])

lemma lookup_asset_unmatched: "unmatched as p \<Longrightarrow> lookup_asset as pairSlug p = Inl TypeError"
  by (auto simp add: unmatched_def lookup_asset_def split: if_splits)

lemma lookup_assets_unmatched:
  "(pairSlug, p) \<in> set ps \<Longrightarrow> unmatched as p \<Longrightarrow> lookup_assets as ps = Inl TypeError"
proof (induction ps arbitrary: as)
  case Nil
  then show ?case by simp
next
  case (Cons sp ps)
  obtain s q where sp: "sp = (s, q)" by (cases sp)
  show ?case
  proof (cases "lookup_asset as s q")
    case (Inl e)
    then have "e = TypeError" by (rule lookup_asset_error)
    with Inl sp show ?thesis by simp
  next
    case (Inr x)
    obtain bs r where x: "x = (bs, r)" by (cases x)
    from Inr x have keep: "map code bs = map code as \<and> map issuer bs = map issuer as"
      by (simp add: lookup_asset_keeps_identity)
    have "(pairSlug, p) \<noteq> (s, q)"
    proof
      assume "(pairSlug, p) = (s, q)"
      with Cons.prems(2) have "lookup_asset as s q = Inl TypeError"
        by (simp add: lookup_asset_unmatched)
      with Inr show False by simp
    qed
    with Cons.prems(1) sp have mem: "(pairSlug, p) \<in> set ps" by auto
    from keep Cons.prems(2) have "unmatched bs p"
      by (simp add: unmatched_cong [of bs as])
    from Cons.IH [OF mem this] Inr x sp show ?thesis by simp
  qed
qed

text \<open>
  C10. Phase 3 looks up the asset of every pair with a native leg and assigns to a field
  of the result, with no check that the look-up found one. When the directory lists a
  pair with a native leg whose other leg is no asset of the ticker, the assignment throws:
  \<open>phase3\<close> rejects with a \<open>TypeError\<close>, and a run that got this far emits the failed
  state and no ticker. The pair is not skipped.
\<close>

theorem C10_unmatched_pair_fails_the_run:
  assumes "(pairSlug, b, c) \<in> set (directory_pairs env)"
      and "unmatched (assets t) (new_pair b c)"
  shows "phase3 env t = Rejected TypeError \<and>
         (snd (phase1 env) = Resolved m \<and> loadAssets env (ticker0 m) = Resolved t \<longrightarrow>
            tickerGenerator env = Resolved \<lparr> files = failed_files env TypeError \<rparr>)"
proof -
  let ?ps = "map (\<lambda>(pairSlug, b, c). (pairSlug, new_pair b c)) (directory_pairs env)"
  from assms(1) have "(pairSlug, new_pair b c) \<in> set ?ps" by force
  from lookup_assets_unmatched [OF this assms(2)]
  have p3: "phase3 env t = Rejected TypeError"
    by (simp add: phase3_def)
  then have "snd (phase1 env) = Resolved m \<and> loadAssets env (ticker0 m) = Resolved t \<longrightarrow>
      tickerDataGenerator env = Rejected TypeError"
    by (simp add: tickerDataGenerator_def ticker0_def)
  with p3 show ?thesis
    by (simp add: tickerGenerator_rejected)
qed

lemma orphan_phase1: "snd (phase1 orphan_pair_env) = Resolved sample_meta"
  by (simp add: orphan_pair_env_def sample_env_def sample_meta_def phase1_eval)

lemma orphan_phase2: "loadAssets orphan_pair_env (ticker0 sample_meta) = Resolved sample_ticker2"
  by (simp add: loadAssets_def orphan_pair_env_def sample_env_def ticker0_def sample_ticker2_def
      sample_assets_def sample_meta_def)

theorem C10_witness:
  "find_asset (assets sample_ticker2) eur_leg = None \<and>
   phase3 orphan_pair_env sample_ticker2 = Rejected TypeError \<and>
   tickerGenerator orphan_pair_env =
     Resolved \<lparr> files = [(''v1/ticker-state.json'',
       StateJson (state_json ''Ticker generation failed'' (Some TypeError)))] \<rparr>"
proof -
  have mem: "(''XLM-native/EUR-anchor.example'', native_leg, eur_leg) \<in>
      set (directory_pairs orphan_pair_env)"
    by (simp add: orphan_pair_env_def sample_env_def)
  have none: "find_asset (assets sample_ticker2) eur_leg = None"
    by (simp add: find_asset_def sample_ticker2_def sample_assets_def eur_leg_def
        native_asset_def new_asset_def)
  then have un: "unmatched (assets sample_ticker2) (new_pair native_leg eur_leg)"
    by (simp add: unmatched_def new_pair_def isNative_def native_leg_def)
  have k: "hideCMCKey orphan_pair_env = (\<lambda>text. text)"
    by (simp add: orphan_pair_env_def sample_env_def)
  show ?thesis
    using C10_unmatched_pair_fails_the_run [OF mem un, of sample_meta] none
    by (simp add: orphan_phase1 orphan_phase2 failed_files_def k)
qed

section \<open>Phase 3: depth of the market\<close>






section \<open>Phase 3: the 24-hour change\<close>

lemma sample_open_reference: "open_reference sample_records = Dec False 102 (- 1)"
  by (simp add: open_reference_def sample_records_def bucket_def medianOf3_def
      digits.simps digit_char_def)

lemma sample_closes:
  "map (ToString \<circ> close) (drop 4 sample_records) = [''10.1'', ''10.2'', ''9.5'']"
  by (simp add: sample_records_def bucket_def digits.simps digit_char_def)

text \<open>
  What the handler does with the change fields of a pair with a native leg: with more
  than 6 buckets both are computed from \<open>open_reference\<close> (inverted when the native
  asset is the base leg), with fewer both are \<open>null\<close>.
\<close>

lemma record_metrics_changes:
  assumes "record_metrics nice ep pairSlug res records i p a st = (p1, st1)"
      and "i < length (acc_assets st)"
  shows "change24h_XLM (acc_assets st1 ! i) = change24h_XLM a \<and>
         change24h_USD (acc_assets st1 ! i) = change24h_USD a"
  using assms by (auto simp add: record_metrics_def Let_def)

lemma trades_handler_changes:
  assumes "trades_handler nice ep pairSlug res records (Some i) p st = Inr (p1, st1)"
      and "i < length (acc_assets st)"
      and "isNative (baseBuying p) \<or> isNative (counterSelling p)"
  shows "(change24h_XLM (acc_assets st1 ! i), change24h_USD (acc_assets st1 ! i)) =
           (if length records > 6 then
              (if isNative (baseBuying p) then
                 changes (jsdiv (Fin 1) (num_of_dec (open_reference records)))
                         (jsdiv (Fin 1) (num (price p)))
                         (num (USD_XLM_24hAgo ep)) (USD_XLM ep)
               else
                 changes (num_of_dec (open_reference records)) (num (price p))
                         (num (USD_XLM_24hAgo ep)) (USD_XLM ep))
            else (Null, Null))"
proof (cases "isNative (baseBuying p)")
  case True
  obtain cx cu where c: "(if length records > 6 then
                          changes (jsdiv (Fin 1) (num_of_dec (open_reference records)))
                                  (jsdiv (Fin 1) (num (price p))) (num (USD_XLM_24hAgo ep)) (USD_XLM ep)
                        else (Null, Null)) = (cx, cu)"
    by (cases "(if length records > 6 then
                          changes (jsdiv (Fin 1) (num_of_dec (open_reference records)))
                                  (jsdiv (Fin 1) (num (price p))) (num (USD_XLM_24hAgo ep)) (USD_XLM ep)
                        else (Null, Null))")
  from assms(1) True c obtain a p0 where
    r: "record_metrics nice ep pairSlug res records i p0 a st = (p1, st1)"
    and a: "change24h_XLM a = cx" "change24h_USD a = cu"
    by (simp add: trades_handler_def Let_def)
  from record_metrics_changes [OF r assms(2)] a c True show ?thesis by (auto split: if_splits)
next
  case False
  with assms(3) have cn: "isNative (counterSelling p)" by simp
  obtain cx cu where c: "(if length records > 6 then
                          changes (num_of_dec (open_reference records)) (num (price p))
                                  (num (USD_XLM_24hAgo ep)) (USD_XLM ep)
                        else (Null, Null)) = (cx, cu)"
    by (cases "(if length records > 6 then
                          changes (num_of_dec (open_reference records)) (num (price p))
                                  (num (USD_XLM_24hAgo ep)) (USD_XLM ep)
                        else (Null, Null))")
  from assms(1) False cn c obtain a p0 where
    r: "record_metrics nice ep pairSlug res records i p0 a st = (p1, st1)"
    and a: "change24h_XLM a = cx" "change24h_USD a = cu"
    by (simp add: trades_handler_def Let_def)
  from record_metrics_changes [OF r assms(2)] a c False show ?thesis by (auto split: if_splits)
qed

text \<open>
  C4, on the code. In the example run the three oldest buckets close at 10.1, 10.2 and
  9.5. Their median is 10.1; \<open>medianOf3\<close> sorts them as the strings \<open>10.1\<close>, \<open>10.2\<close>,
  \<open>9.5\<close> and returns 10.2. The run reports a change of 0.98% (1.99% in the reference
  currency) where the median of the closes gives 1.98% (3%).
\<close>

theorem C4_open_reference_is_not_the_median:
  "map (ToString \<circ> close) (drop 4 sample_records) = [''10.1'', ''10.2'', ''9.5''] \<and>
   open_reference sample_records = Dec False 102 (- 1) \<and>
   numeric_median (101 / 10) (102 / 10) (95 / 10) = 101 / 10 \<and>
   (\<exists>t. phase3 sample_env sample_ticker2 = Resolved t \<and>
        map change24h_XLM (assets t) = [Undefined, Num (Fin (98 / 100))] \<and>
        map change24h_USD (assets t) = [Undefined, Num (Fin (199 / 100))]) \<and>
   changes (Fin (101 / 10)) (Fin (103 / 10)) (Fin (1 / 100)) (Fin (101 / 10000)) =
     (Num (Fin (198 / 100)), Num (Fin 3))"
proof -
  have a: "numeric_median (101 / 10) (102 / 10) (95 / 10) = 101 / 10"
    by (simp add: numeric_median_def)
  have b: "changes (Fin (101 / 10)) (Fin (103 / 10)) (Fin (1 / 100)) (Fin (101 / 10000)) =
     (Num (Fin (198 / 100)), Num (Fin 3))"
    by (simp add: changes_def jssub_def round_real_def)
  have c: "\<exists>t. phase3 sample_env sample_ticker2 = Resolved t \<and>
        map change24h_XLM (assets t) = [Undefined, Num (Fin (98 / 100))] \<and>
        map change24h_USD (assets t) = [Undefined, Num (Fin (199 / 100))]"
    by (simp add: phase3_def sample_env_def sample_ticker2_def lookup_asset_def find_asset_def pair_task_def
     trades_handler_def sample_open_reference [unfolded sample_records_def] record_metrics_def changes_def
     sample_meta_def orderbook_metrics_def sample_orderbook_def pair_price_def new_pair_def 
     usd_leg_def native_leg_def isNative_def jssub_def jsgt_def round_real_def sample_records_def
     sample_assets_def Let_def native_asset_def new_asset_def)
  show ?thesis
    using a b c sample_closes sample_open_reference by simp
qed

section \<open>Phase 4: the ranking\<close>

lemma set_insert_by: "set (insert_by cmp x ys) = insert x (set ys)"
  by (induction ys) auto

lemma set_Array_sort: "set (Array_sort cmp xs) = set xs"
  by (induction xs) (simp_all add: Array_sort_def set_insert_by)

lemma length_insert_by: "length (insert_by cmp x ys) = Suc (length ys)"
  by (induction ys) auto

lemma length_Array_sort: "length (Array_sort cmp xs) = length xs"
  by (induction xs) (simp_all add: Array_sort_def length_insert_by)

lemma insert_by_front:
  "list_all (\<lambda>y. \<not> jsgt (cmp x y) (Fin 0)) ys \<Longrightarrow> insert_by cmp x ys = x # ys"
  by (cases ys) simp_all

lemma round_score_native:
  "asset_id a = ''XLM-native'' \<Longrightarrow>
   round_score (assign_score a) = a\<lparr> activityScore := Some (Fin 100) \<rparr>"
  by (simp add: round_score_def assign_score_def round_real_def)

lemma round_score_unpriced:
  "asset_id a \<noteq> ''XLM-native'' \<Longrightarrow> price_XLM a = None \<Longrightarrow>
   round_score (assign_score a) = a\<lparr> activityScore := Some (Fin 0) \<rparr>"
  by (simp add: round_score_def assign_score_def round_real_def)

lemma by_score_native:
  assumes "asset_id n = ''XLM-native''" and "jsle (num (activityScore b)) (Fin 100)"
  shows "\<not> jsgt (by_score (assign_score n) b) (Fin 0)"
proof -
  have n: "num (activityScore (assign_score n)) = Fin 100"
    using assms(1) by (simp add: assign_score_def)
  from assms(2) show ?thesis
    by (cases "num (activityScore b)") (simp_all add: by_score_def n jssub_def jsgt_def)
qed

text \<open>
  C1, as the code has it. Phase 4 gives an asset with the native asset's id a score of
  exactly 100 and an asset without \<open>price_XLM\<close> a score of exactly 0; the assets of the
  result are those of the ticker with their scores set. The native asset, first in the
  ticker after phase 2, is first in the result when the score of every other asset is a
  number that is at most 100.
\<close>

theorem C1_native_first_when_scores_at_most_100:
  assumes "asset_id n = ''XLM-native''"
      and "list_all (\<lambda>a. jsle (num (activityScore (assign_score a))) (Fin 100)) rest"
  shows "hd (assets (phase4 (t\<lparr> assets := n # rest \<rparr>))) = n\<lparr> activityScore := Some (Fin 100) \<rparr> \<and>
         length (assets (phase4 (t\<lparr> assets := n # rest \<rparr>))) = Suc (length rest) \<and>
         set (assets (phase4 (t\<lparr> assets := n # rest \<rparr>))) =
           (\<lambda>a. round_score (assign_score a)) ` set (n # rest) \<and>
         (\<forall>a. asset_id a = ''XLM-native'' \<longrightarrow>
              round_score (assign_score a) = a\<lparr> activityScore := Some (Fin 100) \<rparr>) \<and>
         (\<forall>a. asset_id a \<noteq> ''XLM-native'' \<and> price_XLM a = None \<longrightarrow>
              round_score (assign_score a) = a\<lparr> activityScore := Some (Fin 0) \<rparr>)"
proof -
  let ?sorted = "Array_sort by_score (map assign_score rest)"
  have "list_all (\<lambda>b. \<not> jsgt (by_score (assign_score n) b) (Fin 0)) (map assign_score rest)"
    using assms(2) by (simp add: list_all_iff by_score_native [OF assms(1)])
  then have "list_all (\<lambda>b. \<not> jsgt (by_score (assign_score n) b) (Fin 0)) ?sorted"
    by (simp add: list_all_iff set_Array_sort)
  then have "insert_by by_score (assign_score n) ?sorted = assign_score n # ?sorted"
    by (rule insert_by_front)
  then have front: "Array_sort by_score (assign_score n # map assign_score rest) = assign_score n # ?sorted"
    by (simp add: Array_sort_def)
  have hd: "hd (assets (phase4 (t\<lparr> assets := n # rest \<rparr>))) = n\<lparr> activityScore := Some (Fin 100) \<rparr>"
    by (simp add: phase4_def front round_score_native [OF assms(1)])
  have len: "length (assets (phase4 (t\<lparr> assets := n # rest \<rparr>))) = Suc (length rest)"
    by (simp add: phase4_def length_Array_sort)
  have st: "set (assets (phase4 (t\<lparr> assets := n # rest \<rparr>))) =
           (\<lambda>a. round_score (assign_score a)) ` set (n # rest)"
    by (simp add: phase4_def set_Array_sort image_image)
  from hd len st show ?thesis
    by (simp add: round_score_native round_score_unpriced)
qed

lemma score_quiet: "score quiet_asset = Fin (1 / 8)"
  by (simp add: score_def quiet_asset_def new_asset_def jssub_def power3_eq_cube)

lemma ln_2_200: "ln (1606938044258990275541962092341162602522202993782792835301376 :: real) = 200 * ln 2"
proof -
  have "(1606938044258990275541962092341162602522202993782792835301376 :: real) = 2 ^ 200"
    by simp
  then have "ln (1606938044258990275541962092341162602522202993782792835301376 :: real) = ln (2 ^ 200)"
    by (simp only:)
  also have "\<dots> = real 200 * ln 2"
    by (rule ln_realpow)
  finally show ?thesis by simp
qed

lemma score_deep: "score deep_asset = Fin (1096 / 10)"
  by (simp add: score_def deep_asset_def new_asset_def jssub_def ln_2_200)



lemma n_id: "asset_id (native_asset (Fin (101 / 10000))) = ''XLM-native''"
  by (simp add: native_asset_def new_asset_def)

lemma u_score: "assign_score unpriced_asset = unpriced_asset\<lparr> activityScore := Some (Fin 0) \<rparr>"
proof -
  have "asset_id unpriced_asset \<noteq> ''XLM-native''" "price_XLM unpriced_asset = None"
    by (simp_all add: unpriced_asset_def new_asset_def)
  then show ?thesis by (simp add: assign_score_def)
qed

lemma q_score: "assign_score quiet_asset = quiet_asset\<lparr> activityScore := Some (Fin (1 / 8)) \<rparr>"
proof -
  have "asset_id quiet_asset \<noteq> ''XLM-native''" "price_XLM quiet_asset \<noteq> None"
    by (simp_all add: quiet_asset_def new_asset_def)
  then show ?thesis by (simp add: assign_score_def score_quiet)
qed

lemma d_score: "assign_score deep_asset = deep_asset\<lparr> activityScore := Some (Fin (1096 / 10)) \<rparr>"
proof -
  have "asset_id deep_asset \<noteq> ''XLM-native''" "price_XLM deep_asset \<noteq> None"
    by (simp_all add: deep_asset_def new_asset_def)
  then show ?thesis by (simp add: assign_score_def score_deep)
qed

lemma n_score: "assign_score (native_asset (Fin (101 / 10000))) =
      (native_asset (Fin (101 / 10000)))\<lparr> activityScore := Some (Fin 100) \<rparr>"
  by (simp add: assign_score_def n_id)

text \<open>
  Against C1 as stated: an asset with a depth of \<open>2\<^sup>2\<^sup>0\<^sup>0 - 2\<close> scores 109.6 and is
  ranked before the native asset.
\<close>

theorem C1_deep_asset_ranks_first:
  "assets (phase4 (sample_ticker2\<lparr> assets := [native_asset (Fin (101 / 10000)), deep_asset] \<rparr>)) =
     [deep_asset\<lparr> activityScore := Some (Fin (1096 / 10)) \<rparr>,
      (native_asset (Fin (101 / 10000)))\<lparr> activityScore := Some (Fin 100) \<rparr>]"
  by (simp add: phase4_def Array_sort_def n_score d_score by_score_def jssub_def jsgt_def round_score_def
        round_real_def)


theorem C1_witness:
  "assets (phase4 (sample_ticker2\<lparr> assets := [native_asset (Fin (101 / 10000)), unpriced_asset, quiet_asset] \<rparr>)) =
     [(native_asset (Fin (101 / 10000)))\<lparr> activityScore := Some (Fin 100) \<rparr>,
      quiet_asset\<lparr> activityScore := Some (Fin (125 / 1000)) \<rparr>,
      unpriced_asset\<lparr> activityScore := Some (Fin 0) \<rparr>]"
proof -
  let ?t = "sample_ticker2\<lparr> assets := [native_asset (Fin (101 / 10000)), unpriced_asset, quiet_asset] \<rparr>"
  have le: "list_all (\<lambda>a. jsle (num (activityScore (assign_score a))) (Fin 100))
              [unpriced_asset, quiet_asset]"
    by (simp add: u_score q_score)
  from C1_native_first_when_scores_at_most_100 [OF n_id le, of sample_ticker2]
  have h: "hd (assets (phase4 ?t)) =
           (native_asset (Fin (101 / 10000)))\<lparr> activityScore := Some (Fin 100) \<rparr>"
    by simp
  have all: "assets (phase4 ?t) =
       [round_score (assign_score (native_asset (Fin (101 / 10000)))),
        quiet_asset\<lparr> activityScore := Some (Fin (125 / 1000)) \<rparr>,
        unpriced_asset\<lparr> activityScore := Some (Fin 0) \<rparr>]"
    by (simp add: phase4_def Array_sort_def n_score u_score q_score by_score_def jssub_def jsgt_def
        round_score_def round_real_def)
  from h all show ?thesis
    by simp
qed

section \<open>Printing is injective, and medianOf3 does not depend on the order\<close>

lemma digit_cases: "d < 10 \<Longrightarrow> d = 0 \<or> d = 1 \<or> d = 2 \<or> d = 3 \<or> d = 4 \<or> d = 5 \<or> d = 6 \<or> d = 7 \<or> d = 8 \<or> d = (9::nat)"
  by arith

lemma digit_char_code: "d < 10 \<Longrightarrow> of_char (digit_char d) = (48 + d :: nat)"
  using digit_cases [of d] by (auto simp add: digit_char_def)

lemma digit_char_inj:
  assumes "d < 10" and "d' < 10" and "digit_char d = digit_char d'"
  shows "d = d'"
proof -
  have "(48 + d :: nat) = of_char (digit_char d)"
    by (simp only: digit_char_code [OF assms(1)])
  also have "\<dots> = of_char (digit_char d')"
    by (simp only: assms(3))
  also have "\<dots> = 48 + d'"
    by (simp only: digit_char_code [OF assms(2)])
  finally show ?thesis by simp
qed

lemma is_digit_digit_char: "d < 10 \<Longrightarrow> is_digit (digit_char d)"
  using digit_cases [of d] by (auto simp add: digit_char_def is_digit_def)

lemma digit_char_zero: "d < 10 \<Longrightarrow> digit_char d = CHR ''0'' \<longleftrightarrow> d = 0"
  using digit_cases [of d] by (auto simp add: digit_char_def)

lemma digits_not_Nil: "digits n \<noteq> []"
  by (subst digits.simps) simp

lemma digits_all_digits: "list_all is_digit (digits n)"
proof (induction n rule: digits.induct)
  case (1 n)
  show ?case
  proof (cases "n < 10")
    case True
    then show ?thesis by (subst digits.simps) (simp add: is_digit_digit_char)
  next
    case False
    with 1 show ?thesis by (subst digits.simps) (simp add: is_digit_digit_char)
  qed
qed

lemma last_digits: "last (digits n) = digit_char (n mod 10)"
  by (subst digits.simps) simp

lemma hd_digits: "0 < n \<Longrightarrow> hd (digits n) \<noteq> CHR ''0''"
proof (induction n rule: digits.induct)
  case (1 n)
  show ?case
  proof (cases "n < 10")
    case True
    with "1.prems" show ?thesis by (subst digits.simps) (simp add: digit_char_zero)
  next
    case False
    then have "0 < n div 10" by simp
    with 1 False have "hd (digits (n div 10)) \<noteq> CHR ''0''" by simp
    with False show ?thesis by (subst digits.simps) (simp add: digits_not_Nil)
  qed
qed

lemma length_digits_small: "length (digits n) = Suc 0 \<longleftrightarrow> n < 10"
proof (cases "n < 10")
  case True
  then show ?thesis by (subst digits.simps) simp
next
  case False
  have "digits (n div 10) \<noteq> []" by (rule digits_not_Nil)
  then have "length (digits (n div 10)) \<noteq> 0" by simp
  with False show ?thesis by (subst digits.simps) simp
qed

lemma digits_inj: "digits m = digits n \<Longrightarrow> m = n"
proof (induction m arbitrary: n rule: digits.induct)
  case (1 m)
  show ?case
  proof (cases "m < 10")
    case True
    then have "length (digits m) = Suc 0" by (simp add: length_digits_small)
    with "1.prems" have n: "n < 10" by (simp add: length_digits_small)
    from True n "1.prems" have "digit_char m = digit_char n"
      by (simp add: digits.simps [of m] digits.simps [of n])
    with True n show ?thesis by (rule digit_char_inj)
  next
    case False
    then have "length (digits m) \<noteq> Suc 0" by (simp add: length_digits_small)
    with "1.prems" have n: "\<not> n < 10" by (simp add: length_digits_small)
    from False n "1.prems" have eq: "digits (m div 10) = digits (n div 10)"
      and l: "digit_char (m mod 10) = digit_char (n mod 10)"
      by (simp_all add: digits.simps [of m] digits.simps [of n])
    from "1.IH" [OF False eq] have d: "m div 10 = n div 10" .
    from l have "m mod 10 = n mod 10" by (intro digit_char_inj) simp_all
    with d show ?thesis by (metis div_mult_mod_eq)
  qed
qed

lemma split_at:
  assumes "c \<notin> set xs" and "c \<notin> set xs'" and "xs @ c # ys = xs' @ c # ys'"
  shows "xs = xs' \<and> ys = ys'"
proof -
  have a: "takeWhile (\<lambda>x. x \<noteq> c) (xs @ c # ys) = xs"
    using assms(1) by (auto simp add: takeWhile_tail)
  have b: "takeWhile (\<lambda>x. x \<noteq> c) (xs' @ c # ys') = xs'"
    using assms(2) by (auto simp add: takeWhile_tail)
  from a b assms(3) have "xs = xs'" by simp
  with assms(3) show ?thesis by simp
qed

lemma dropWhile_replicate_append:
  "w = [] \<or> hd w \<noteq> z \<Longrightarrow> dropWhile (\<lambda>c. c = z) (replicate i z @ w) = w"
  by (induction i) (auto simp add: neq_Nil_conv, cases w, auto)

lemma strip_leading:
  assumes "w \<noteq> []" "hd w \<noteq> z" "w' \<noteq> []" "hd w' \<noteq> z"
      and "replicate i z @ w = replicate j z @ w'"
  shows "i = j \<and> w = w'"
proof -
  have "dropWhile (\<lambda>c. c = z) (replicate i z @ w) = w"
    using assms(2) by (simp add: dropWhile_replicate_append)
  moreover have "dropWhile (\<lambda>c. c = z) (replicate j z @ w') = w'"
    using assms(4) by (simp add: dropWhile_replicate_append)
  ultimately have w: "w = w'" using assms(5) by simp
  with assms(5) have "length (replicate i z) = length (replicate j z)" by simp
  with w show ?thesis by simp
qed

lemma strip_trailing:
  assumes "xs \<noteq> []" "last xs \<noteq> z" "ys \<noteq> []" "last ys \<noteq> z"
      and "xs @ replicate i z = ys @ replicate j z"
  shows "xs = ys \<and> i = j"
proof -
  from assms(5) have "rev (xs @ replicate i z) = rev (ys @ replicate j z)" by simp
  then have "replicate i z @ rev xs = replicate j z @ rev ys" by simp
  moreover have "rev xs \<noteq> []" "rev ys \<noteq> []" using assms(1,3) by simp_all
  moreover have "hd (rev xs) \<noteq> z" "hd (rev ys) \<noteq> z"
    using assms(1-4) by (simp_all add: hd_rev)
  ultimately have "i = j \<and> rev xs = rev ys" by (intro strip_leading)
  then show ?thesis by simp
qed

lemma ToString_Dec:
  "m \<noteq> 0 \<Longrightarrow> ToString (Dec s m e) = sign_str s @ dec_body (digits m) (e + int (length (digits m)))"
  by (simp add: Let_def sign_str_def dec_body_def mantissa_def expo_str_def)

lemma shortest_digits: "m \<noteq> 0 \<Longrightarrow> m mod 10 \<noteq> 0 \<Longrightarrow> shortest (digits m)"
  by (simp add: shortest_def digits_not_Nil digits_all_digits hd_digits last_digits digit_char_zero)

lemma shortest_no_char: "shortest ds \<Longrightarrow> \<not> is_digit c \<Longrightarrow> c \<notin> set ds"
  by (auto simp add: shortest_def list_all_iff)

lemma not_digit: "\<not> is_digit CHR ''e''" "\<not> is_digit CHR ''.''" "\<not> is_digit CHR ''-''"
  "\<not> is_digit CHR ''+''" "\<not> is_digit CHR ''N''" "\<not> is_digit CHR ''I''"
  by (simp_all add: is_digit_def)

lemma expo_str_inj: "expo_str x = expo_str y \<Longrightarrow> x = y"
proof -
  assume a: "expo_str x = expo_str y"
  then have s: "(x < 0) = (y < 0)"
    by (auto simp add: expo_str_def split: if_splits)
  from a have "digits (nat \<bar>x\<bar>) = digits (nat \<bar>y\<bar>)"
    by (auto simp add: expo_str_def split: if_splits)
  then have "nat \<bar>x\<bar> = nat \<bar>y\<bar>" by (rule digits_inj)
  with s show ?thesis by arith
qed

lemma expo_str_no_e: "CHR ''e'' \<notin> set (expo_str x)"
  using digits_all_digits [of "nat \<bar>x\<bar>"] not_digit(1)
  by (auto simp add: expo_str_def list_all_iff)

lemma mantissa_no_e: "shortest ds \<Longrightarrow> CHR ''e'' \<notin> set (mantissa ds)"
  using shortest_no_char [of ds "CHR ''e''"]
  by (auto simp add: mantissa_def not_digit dest: in_set_takeD in_set_dropD)

lemma mantissa_inj:
  assumes "shortest ds" "shortest ds'" "mantissa ds = mantissa ds'"
  shows "ds = ds'"
proof -
  have nd: "CHR ''.'' \<notin> set ds" "CHR ''.'' \<notin> set ds'"
    using assms(1,2) by (simp_all add: shortest_no_char not_digit)
  show ?thesis
  proof (cases "length ds = 1")
    case True
    show ?thesis
    proof (cases "length ds' = 1")
      case l: True
      with True assms(3) show ?thesis by (simp add: mantissa_def)
    next
      case False
      with True assms(3) have "ds = take 1 ds' @ CHR ''.'' # drop 1 ds'"
        by (simp add: mantissa_def)
      then have "CHR ''.'' \<in> set ds" by (metis in_set_conv_decomp)
      with nd show ?thesis by simp
    qed
  next
    case False
    show ?thesis
    proof (cases "length ds' = 1")
      case True
      with False assms(3) have "ds' = take 1 ds @ CHR ''.'' # drop 1 ds"
        by (simp add: mantissa_def)
      then have "CHR ''.'' \<in> set ds'" by (metis in_set_conv_decomp)
      with nd show ?thesis by simp
    next
      case l: False
      with False assms(3) have eq: "take 1 ds @ CHR ''.'' # drop 1 ds = take 1 ds' @ CHR ''.'' # drop 1 ds'"
        by (simp add: mantissa_def)
      have "CHR ''.'' \<notin> set (take 1 ds)" "CHR ''.'' \<notin> set (take 1 ds')"
        using nd by (auto dest: in_set_takeD)
      from split_at [OF this eq] have "take 1 ds @ drop 1 ds = take 1 ds' @ drop 1 ds'"
        by simp
      then show ?thesis by simp
    qed
  qed
qed

lemma shortest_Cons: "shortest ds \<Longrightarrow> \<exists>d rest. ds = d # rest \<and> is_digit d \<and> d \<noteq> CHR ''0''"
  by (cases ds) (simp_all add: shortest_def)

lemma dec_body_first: "shortest ds \<Longrightarrow> dec_body ds n \<noteq> [] \<and> is_digit (hd (dec_body ds n))"
proof -
  assume g: "shortest ds"
  then obtain d rest where ds: "ds = d # rest" and d: "is_digit d" "d \<noteq> CHR ''0''"
    using shortest_Cons by blast
  have z: "is_digit CHR ''0''" by (simp add: is_digit_def)
  have "0 < n \<Longrightarrow> take (nat n) (d # rest) = d # take (nat n - 1) rest"
    by (cases "nat n") simp_all
  with d z show ?thesis
    by (auto simp add: dec_body_def ds mantissa_def Let_def)
qed

lemma dec_body_not_zero: "shortest ds \<Longrightarrow> dec_body ds n \<noteq> ''0''"
proof -
  assume g: "shortest ds"
  then obtain d rest where ds: "ds = d # rest" and d: "is_digit d" "d \<noteq> CHR ''0''"
    using shortest_Cons by blast
  have "0 < n \<Longrightarrow> take (nat n) (d # rest) = d # take (nat n - 1) rest"
    by (cases "nat n") simp_all
  with d show ?thesis
    by (auto simp add: dec_body_def ds mantissa_def Let_def)
qed

lemma dec_body_e: "shortest ds \<Longrightarrow> (CHR ''e'' \<in> set (dec_body ds n)) = (\<not> (- 6 < n \<and> n \<le> 21))"
proof -
  assume g: "shortest ds"
  have e: "CHR ''e'' \<notin> set ds" using g by (simp add: shortest_no_char not_digit)
  then have "CHR ''e'' \<notin> set (take (nat n) ds)" "CHR ''e'' \<notin> set (drop (nat n) ds)"
    by (auto dest: in_set_takeD in_set_dropD)
  moreover have "1 \<le> int (length ds)" using g by (cases ds) (simp_all add: shortest_def)
  ultimately show ?thesis using e
    by (auto simp add: dec_body_def Let_def)
qed

lemma dec_body_dot:
  "shortest ds \<Longrightarrow> - 6 < n \<Longrightarrow> n \<le> 21 \<Longrightarrow>
   (CHR ''.'' \<in> set (dec_body ds n)) = (\<not> int (length ds) \<le> n)"
proof -
  assume g: "shortest ds" and n: "- 6 < n" "n \<le> 21"
  have e: "CHR ''.'' \<notin> set ds" using g by (simp add: shortest_no_char not_digit)
  from n e show ?thesis
    by (auto simp add: dec_body_def Let_def)
qed

lemma dec_body_hd_zero:
  "shortest ds \<Longrightarrow> - 6 < n \<Longrightarrow> n \<le> 21 \<Longrightarrow> \<not> int (length ds) \<le> n \<Longrightarrow>
   (hd (dec_body ds n) = CHR ''0'') = (n \<le> 0)"
proof -
  assume g: "shortest ds" and n: "- 6 < n" "n \<le> 21" "\<not> int (length ds) \<le> n"
  from g obtain d rest where ds: "ds = d # rest" and d: "is_digit d" "d \<noteq> CHR ''0''"
    using shortest_Cons by blast
  have "0 < n \<Longrightarrow> take (nat n) (d # rest) = d # take (nat n - 1) rest"
    by (cases "nat n") simp_all
  with n d show ?thesis
    by (auto simp add: dec_body_def Let_def ds)
qed

lemma shortest_length: "shortest ds \<Longrightarrow> 1 \<le> int (length ds)"
  by (cases ds) (simp_all add: shortest_def)

lemma dec_body_D:
  "1 \<le> int (length ds) \<Longrightarrow> \<not> (- 6 < n \<and> n \<le> 21) \<Longrightarrow>
   dec_body ds n = mantissa ds @ CHR ''e'' # expo_str (n - 1)"
  by (auto simp add: dec_body_def Let_def)

lemma dec_body_A:
  "int (length ds) \<le> n \<Longrightarrow> n \<le> 21 \<Longrightarrow>
   dec_body ds n = ds @ replicate (nat (n - int (length ds))) CHR ''0''"
  by (simp add: dec_body_def Let_def)

lemma dec_body_B:
  "\<not> int (length ds) \<le> n \<Longrightarrow> 0 < n \<Longrightarrow> n \<le> 21 \<Longrightarrow>
   dec_body ds n = take (nat n) ds @ CHR ''.'' # drop (nat n) ds"
  by (simp add: dec_body_def Let_def)

lemma dec_body_C:
  "1 \<le> int (length ds) \<Longrightarrow> - 6 < n \<Longrightarrow> n \<le> 0 \<Longrightarrow>
   dec_body ds n = CHR ''0'' # CHR ''.'' # replicate (nat (- n)) CHR ''0'' @ ds"
  by (simp add: dec_body_def Let_def)

lemma dec_body_inj:
  assumes g: "shortest ds" and g': "shortest ds'" and eq: "dec_body ds n = dec_body ds' n'"
  shows "ds = ds' \<and> n = n'"
proof (cases "- 6 < n \<and> n \<le> 21")
  case False
  have "(CHR ''e'' \<in> set (dec_body ds n)) = (CHR ''e'' \<in> set (dec_body ds' n'))"
    by (simp only: eq)
  with False have F': "\<not> (- 6 < n' \<and> n' \<le> 21)"
    by (simp only: dec_body_e [OF g] dec_body_e [OF g']) simp
  have "mantissa ds @ CHR ''e'' # expo_str (n - 1) = dec_body ds n"
    by (rule dec_body_D [symmetric, OF shortest_length [OF g] False])
  also have "\<dots> = dec_body ds' n'" by (rule eq)
  also have "\<dots> = mantissa ds' @ CHR ''e'' # expo_str (n' - 1)"
    by (rule dec_body_D [OF shortest_length [OF g'] F'])
  finally have "mantissa ds = mantissa ds' \<and> expo_str (n - 1) = expo_str (n' - 1)"
    by (rule split_at [OF mantissa_no_e [OF g] mantissa_no_e [OF g']])
  then have "ds = ds'" and "n - 1 = n' - 1"
    by (simp_all add: mantissa_inj [OF g g'] expo_str_inj)
  then show ?thesis by simp
next
  case True
  have "(CHR ''e'' \<in> set (dec_body ds n)) = (CHR ''e'' \<in> set (dec_body ds' n'))"
    by (simp only: eq)
  with True have T': "- 6 < n' \<and> n' \<le> 21"
    by (simp only: dec_body_e [OF g] dec_body_e [OF g']) simp
  have dots: "(CHR ''.'' \<in> set (dec_body ds n)) = (CHR ''.'' \<in> set (dec_body ds' n'))"
    by (simp only: eq)
  have dot: "(\<not> int (length ds) \<le> n) = (\<not> int (length ds') \<le> n')"
    using dots dec_body_dot [OF g, of n] dec_body_dot [OF g', of n'] True T' by blast
  show ?thesis
  proof (cases "int (length ds) \<le> n")
    case A: True
    with dot have A': "int (length ds') \<le> n'" by simp
    have "ds @ replicate (nat (n - int (length ds))) CHR ''0'' = dec_body ds n"
      using A True by (simp add: dec_body_A)
    also have "\<dots> = dec_body ds' n'" by (rule eq)
    also have "\<dots> = ds' @ replicate (nat (n' - int (length ds'))) CHR ''0''"
      using A' T' by (simp add: dec_body_A)
    finally have "ds = ds' \<and> nat (n - int (length ds)) = nat (n' - int (length ds'))"
      using g g' by (intro strip_trailing) (simp_all add: shortest_def)
    with A A' show ?thesis by auto
  next
    case nA: False
    with dot have nA': "\<not> int (length ds') \<le> n'" by simp
    have hds: "(hd (dec_body ds n) = CHR ''0'') = (hd (dec_body ds' n') = CHR ''0'')"
      by (simp only: eq)
    have hz: "(n \<le> 0) = (n' \<le> 0)"
      using hds dec_body_hd_zero [OF g _ _ nA, of ] dec_body_hd_zero [OF g' _ _ nA'] True T' by blast
    show ?thesis
    proof (cases "n \<le> 0")
      case C: True
      with hz have C': "n' \<le> 0" by simp
      have "CHR ''0'' # CHR ''.'' # replicate (nat (- n)) CHR ''0'' @ ds = dec_body ds n"
        using C True shortest_length [OF g] by (simp add: dec_body_C)
      also have "\<dots> = dec_body ds' n'" by (rule eq)
      also have "\<dots> = CHR ''0'' # CHR ''.'' # replicate (nat (- n')) CHR ''0'' @ ds'"
        using C' T' shortest_length [OF g'] by (simp add: dec_body_C)
      finally have "replicate (nat (- n)) CHR ''0'' @ ds = replicate (nat (- n')) CHR ''0'' @ ds'"
        by simp
      then have "nat (- n) = nat (- n') \<and> ds = ds'"
        using g g' by (intro strip_leading) (simp_all add: shortest_def)
      with C C' show ?thesis by auto
    next
      case B: False
      with hz have B': "\<not> n' \<le> 0" by simp
      have "take (nat n) ds @ CHR ''.'' # drop (nat n) ds = dec_body ds n"
        using B nA True by (simp add: dec_body_B)
      also have "\<dots> = dec_body ds' n'" by (rule eq)
      also have "\<dots> = take (nat n') ds' @ CHR ''.'' # drop (nat n') ds'"
        using B' nA' T' by (simp add: dec_body_B)
      finally have e: "take (nat n) ds @ CHR ''.'' # drop (nat n) ds =
               take (nat n') ds' @ CHR ''.'' # drop (nat n') ds'" .
      have "CHR ''.'' \<notin> set ds" "CHR ''.'' \<notin> set ds'"
        using g g' by (simp_all add: shortest_no_char not_digit)
      then have "CHR ''.'' \<notin> set (take (nat n) ds)" "CHR ''.'' \<notin> set (take (nat n') ds')"
        by (auto dest: in_set_takeD)
      from split_at [OF this e]
      have t: "take (nat n) ds = take (nat n') ds'" and d: "drop (nat n) ds = drop (nat n') ds'"
        by simp_all
      have "ds = take (nat n) ds @ drop (nat n) ds" by simp
      also have "\<dots> = take (nat n') ds' @ drop (nat n') ds'" by (simp only: t d)
      also have "\<dots> = ds'" by simp
      finally have ds: "ds = ds'" .
      from t have "length (take (nat n) ds) = length (take (nat n') ds')" by (simp only:)
      with nA nA' B B' ds have "n = n'" by simp
      with ds show ?thesis by simp
    qed
  qed
qed

lemma ToString_first_Dec:
  assumes "canonical (Dec s m e)"
  shows "ToString (Dec s m e) \<noteq> [] \<and>
         (is_digit (hd (ToString (Dec s m e))) \<or>
          (hd (ToString (Dec s m e)) = CHR ''-'' \<and> tl (ToString (Dec s m e)) \<noteq> [] \<and>
           is_digit (hd (tl (ToString (Dec s m e))))))"
proof (cases "m = 0")
  case True
  then show ?thesis by (simp add: is_digit_def)
next
  case False
  with assms have g: "shortest (digits m)" by (simp add: shortest_digits)
  from dec_body_first [OF g, of "e + int (length (digits m))"] False show ?thesis
    by (cases s) (simp_all add: ToString_Dec sign_str_def del: ToString.simps(3))
qed

lemma ToString_Dec_inj:
  assumes "canonical (Dec s m e)" and "canonical (Dec s' m' e')"
      and eq: "ToString (Dec s m e) = ToString (Dec s' m' e')"
  shows "Dec s m e = Dec s' m' e'"
proof (cases "m = 0")
  case True
  show ?thesis
  proof (cases "m' = 0")
    case z: True
    with True assms(1,2) show ?thesis by simp
  next
    case False
    with assms(2) have g: "shortest (digits m')" by (simp add: shortest_digits)
    have "ToString (Dec s m e) = ''0''" using True by simp
    with eq have "''0'' = ToString (Dec s' m' e')" by (simp only:)
    then have "''0'' = sign_str s' @ dec_body (digits m') (e' + int (length (digits m')))"
      by (simp only: ToString_Dec [OF False])
    with dec_body_not_zero [OF g, of "e' + int (length (digits m'))"] show ?thesis
      by (cases s') (simp_all add: sign_str_def)
  qed
next
  case False
  with assms(1) have g: "shortest (digits m)" by (simp add: shortest_digits)
  show ?thesis
  proof (cases "m' = 0")
    case True
    have "ToString (Dec s' m' e') = ''0''" using True by simp
    with eq have "ToString (Dec s m e) = ''0''" by (simp only:)
    then have "sign_str s @ dec_body (digits m) (e + int (length (digits m))) = ''0''"
      by (simp only: ToString_Dec [OF False])
    with dec_body_not_zero [OF g, of "e + int (length (digits m))"] show ?thesis
      by (cases s) (simp_all add: sign_str_def)
  next
    case nz: False
    with assms(2) have g': "shortest (digits m')" by (simp add: shortest_digits)
    let ?b = "dec_body (digits m) (e + int (length (digits m)))"
    let ?b' = "dec_body (digits m') (e' + int (length (digits m')))"
    from eq have e2: "sign_str s @ ?b = sign_str s' @ ?b'"
      by (simp only: ToString_Dec [OF False] ToString_Dec [OF nz])
    have f: "?b \<noteq> []" "is_digit (hd ?b)" "?b' \<noteq> []" "is_digit (hd ?b')"
      using dec_body_first [OF g] dec_body_first [OF g'] by simp_all
    have nm: "hd ?b \<noteq> CHR ''-''" "hd ?b' \<noteq> CHR ''-''"
      using f not_digit(3) by auto
    have s: "s = s'"
    proof (rule ccontr)
      assume "s \<noteq> s'"
      then consider "s" "\<not> s'" | "\<not> s" "s'" by blast
      then show False
      proof cases
        case 1
        with e2 have "CHR ''-'' # ?b = ?b'" by (simp add: sign_str_def)
        then have "hd ?b' = CHR ''-''" by (metis list.sel(1))
        with nm show False by simp
      next
        case 2
        with e2 have "?b = CHR ''-'' # ?b'" by (simp add: sign_str_def)
        then have "hd ?b = CHR ''-''" by (metis list.sel(1))
        with nm show False by simp
      qed
    qed
    with e2 have "?b = ?b'" by simp
    from dec_body_inj [OF g g' this] have d: "digits m = digits m'"
      and n: "e + int (length (digits m)) = e' + int (length (digits m'))" by blast+
    from d have "m = m'" by (rule digits_inj)
    with d n s show ?thesis by simp
  qed
qed

lemma Dec_not_special:
  assumes "canonical (Dec s m e)"
  shows "ToString (Dec s m e) \<noteq> ''NaN'' \<and> ToString (Dec s m e) \<noteq> ''Infinity'' \<and>
         ToString (Dec s m e) \<noteq> ''-Infinity''"
proof -
  let ?X = "ToString (Dec s m e)"
  note f = ToString_first_Dec [OF assms]
  have a: "?X \<noteq> ''NaN''"
  proof
    assume x: "?X = ''NaN''"
    from f show False unfolding x by (simp add: not_digit)
  qed
  have b: "?X \<noteq> ''Infinity''"
  proof
    assume x: "?X = ''Infinity''"
    from f show False unfolding x by (simp add: not_digit)
  qed
  have c: "?X \<noteq> ''-Infinity''"
  proof
    assume x: "?X = ''-Infinity''"
    from f show False unfolding x by (simp add: not_digit)
  qed
  from a b c show ?thesis by blast
qed

lemma ToString_inj:
  assumes "canonical a" and "canonical b" and "ToString a = ToString b"
  shows "a = b"
proof (cases a)
  case DNaN
  show ?thesis
  proof (cases b)
    case (Dec s m e)
    with Dec_not_special [of s m e] assms DNaN show ?thesis
      by (simp del: ToString.simps(3) canonical.simps)
  qed (use DNaN assms in \<open>auto split: if_splits\<close>)
next
  case (DInf i)
  show ?thesis
  proof (cases b)
    case (Dec s m e)
    with Dec_not_special [of s m e] assms DInf show ?thesis
      by (cases i) (simp_all del: ToString.simps(3) canonical.simps)
  qed (use DInf assms in \<open>auto split: if_splits\<close>)
next
  case (Dec s m e)
  show ?thesis
  proof (cases b)
    case DNaN
    with Dec_not_special [of s m e] assms Dec show ?thesis
      by (simp del: ToString.simps(3) canonical.simps)
  next
    case (DInf i)
    with Dec_not_special [of s m e] assms Dec show ?thesis
      by (cases i) (simp_all del: ToString.simps(3) canonical.simps)
  next
    case d: (Dec s' m' e')
    from assms show ?thesis unfolding Dec d by (rule ToString_Dec_inj)
  qed
qed

lemma filter_eq_replicate: "filter (\<lambda>x. k = x) zs = replicate (count (mset zs) k) k"
  by (induction zs) auto

lemma sort_key_permuted:
  assumes "mset xs = mset ys" and "inj_on f (set xs)"
  shows "sort_key f xs = sort_key f ys"
proof (rule properties_for_sort_key)
  show "mset (sort_key f ys) = mset xs" using assms(1) by simp
  show "sorted (map f (sort_key f ys))" by simp
  fix k assume "k \<in> set (sort_key f ys)"
  then have k: "k \<in> set xs" using assms(1) by (metis set_sort mset_eq_setD)
  have same: "set (sort_key f ys) = set xs" using assms(1) by (metis set_sort mset_eq_setD)
  have "filter (\<lambda>x. f k = f x) (sort_key f ys) = filter (\<lambda>x. k = x) (sort_key f ys)"
    using assms(2) k same by (intro filter_cong) (auto dest: inj_onD)
  also have "\<dots> = replicate (count (mset xs) k) k"
    using assms(1) by (simp add: filter_eq_replicate)
  also have "\<dots> = filter (\<lambda>x. k = x) xs"
    by (simp add: filter_eq_replicate)
  also have "\<dots> = filter (\<lambda>x. f k = f x) xs"
    using assms(2) k by (intro filter_cong) (auto dest: inj_onD)
  finally show "filter (\<lambda>x. f k = f x) (sort_key f ys) = filter (\<lambda>x. f k = f x) xs" .
qed

lemma medianOf3_permuted:
  assumes "canonical a" "canonical b" "canonical c" and "mset [a', b', c'] = mset [a, b, c]"
  shows "medianOf3 a' b' c' = medianOf3 a b c"
proof -
  have "set [a', b', c'] = set [a, b, c]" using assms(4) by (rule mset_eq_setD)
  then have "inj_on ToString (set [a', b', c'])"
    using assms(1-3) by (auto intro!: inj_onI ToString_inj)
  from sort_key_permuted [OF assms(4) this] show ?thesis
    by (simp only: medianOf3_def)
qed

text \<open>
  C8. For all numbers \<open>a\<close>, \<open>b\<close>, \<open>c\<close> (finite ones in the notation that JavaScript
  prints, the infinities and \<open>NaN\<close>), \<open>medianOf3\<close> returns the same value for every
  order of its arguments: no two different numbers print alike, so the sort by the
  printed text has one result.
\<close>

theorem C8_medianOf3_order_independent:
  assumes "canonical a" and "canonical b" and "canonical c"
  shows "medianOf3 c b a = medianOf3 a b c \<and> medianOf3 a c b = medianOf3 a b c \<and>
         medianOf3 b a c = medianOf3 a b c \<and> medianOf3 b c a = medianOf3 a b c \<and>
         medianOf3 c a b = medianOf3 a b c"
  by (intro conjI medianOf3_permuted [OF assms]) (simp_all add: ac_simps)

theorem C8_witness:
  "medianOf3 (Dec False 95 (- 1)) (Dec False 102 (- 1)) (Dec False 101 (- 1)) = Dec False 102 (- 1) \<and>
   medianOf3 (Dec False 101 (- 1)) (Dec False 102 (- 1)) (Dec False 95 (- 1)) = Dec False 102 (- 1) \<and>
   medianOf3 (Dec False 102 (- 1)) (Dec False 95 (- 1)) (Dec False 101 (- 1)) = Dec False 102 (- 1)"
proof -
  have m: "medianOf3 (Dec False 95 (- 1)) (Dec False 102 (- 1)) (Dec False 101 (- 1)) = Dec False 102 (- 1)"
    by (simp add: medianOf3_def digits.simps digit_char_def)
  have c: "canonical (Dec False 95 (- 1))" "canonical (Dec False 102 (- 1))"
    "canonical (Dec False 101 (- 1))" by simp_all
  from C8_medianOf3_order_independent [OF c] m show ?thesis
    by (simp only:)
qed

end
